theory Spec2Isabelle
  imports Complex_Main "HOL-Library.Log_Nat"
begin

section \<open>HotelVault: the in-memory store and the dashboard metrics\<close>

text \<open>
  The development embeds \<^verbatim>\<open>server/storage.ts\<close> (class \<^verbatim>\<open>MemStorage\<close>) and the
  dashboard handler of \<^verbatim>\<open>server/routes.ts\<close>. Entities are records with the fields
  of \<^verbatim>\<open>shared/schema.ts\<close>; a JavaScript \<^verbatim>\<open>Map\<close> is an insertion-ordered association
  list; \<^verbatim>\<open>throw new Error(msg)\<close> is the left injection of a sum; the results of
  \<^verbatim>\<open>randomUUID()\<close> and \<^verbatim>\<open>new Date()\<close> are arguments of the operation that calls them.
  A method that mutates the store returns its result together with the store after the
  call; a method that throws returns the error and the store as it is at the throw.
\<close>

subsection \<open>Values\<close>

text \<open>A \<^verbatim>\<open>jsonb\<close> column holds any JSON value.\<close>

datatype json =
    JNull
  | JBool bool
  | JNumber rat
  | JString string
  | JArray "json list"
  | JObject "(string \<times> json) list"

text \<open>
  A \<^verbatim>\<open>Date\<close> wraps a time value, the milliseconds since the epoch, or is invalid
  (time value \<^verbatim>\<open>NaN\<close>). The relational operators compare time values, and every
  comparison with \<^verbatim>\<open>NaN\<close> is false.
\<close>

datatype Date = InvalidDate | Date int

fun date_ge :: "Date \<Rightarrow> Date \<Rightarrow> bool" where
  "date_ge (Date a) (Date b) = (a \<ge> b)"
| "date_ge _ _ = False"

fun date_le :: "Date \<Rightarrow> Date \<Rightarrow> bool" where
  "date_le (Date a) (Date b) = (a \<le> b)"
| "date_le _ _ = False"

fun date_lt :: "Date \<Rightarrow> Date \<Rightarrow> bool" where
  "date_lt (Date a) (Date b) = (a < b)"
| "date_lt _ _ = False"

fun date_gt :: "Date \<Rightarrow> Date \<Rightarrow> bool" where
  "date_gt (Date a) (Date b) = (a > b)"
| "date_gt _ _ = False"

text \<open>\<^verbatim>\<open>a.getTime() === b.getTime()\<close>: \<^verbatim>\<open>NaN\<close> is not equal to itself.\<close>

fun getTime_eq :: "Date \<Rightarrow> Date \<Rightarrow> bool" where
  "getTime_eq (Date a) (Date b) = (a = b)"
| "getTime_eq _ _ = False"

datatype error = Error string

subsection \<open>Numbers\<close>

text \<open>
  A \<^verbatim>\<open>Number\<close> is an IEEE 754 binary64 value: \<^verbatim>\<open>NaN\<close>, an infinity, or a finite
  value, kept as the rational it denotes. The arithmetic operators compute the exact
  result and round it to the nearest binary64 value, ties to the even significand
  (\<open>binary64\<close>): 53 significant bits, the least exponent \<open>-1022\<close> (below it the spacing
  of the values stays \<open>2^-1074\<close>), and an infinity from \<open>2^1024\<close> on.

  The sign of zero is not represented. The dashboard divides two array lengths, whose
  zero is \<open>+0\<close>, and adds amounts to a sum that starts at \<open>+0\<close> (in IEEE 754
  \<open>x + (-0) = x\<close> and \<open>(+0) + (-0) = +0\<close>): no \<open>-0\<close> reaches a result there.
\<close>

datatype Number = NaN | PosInfinity | NegInfinity | Finite rat

definition pow2 :: "int \<Rightarrow> rat" where
  "pow2 e = (if e \<ge> 0 then 2 ^ nat e else 1 / 2 ^ nat (- e))"

text \<open>\<open>ilog2 q\<close> is the integer \<open>e\<close> with \<open>2^e \<le> q < 2^(e+1)\<close>, for \<open>q > 0\<close>.\<close>

definition ilog2 :: "rat \<Rightarrow> int" where
  "ilog2 q = (if q \<ge> 1 then bitlen \<lfloor>q\<rfloor> - 1 else - bitlen (\<lceil>1 / q\<rceil> - 1))"

definition roundTiesToEven :: "rat \<Rightarrow> int" where
  "roundTiesToEven q =
     (let n = \<lfloor>q\<rfloor>; r = q - of_int n
      in if r < 1 / 2 then n else if r > 1 / 2 then n + 1 else if even n then n else n + 1)"

definition binary64 :: "rat \<Rightarrow> Number" where
  "binary64 q =
     (if q = 0 then Finite 0
      else let e = max (ilog2 \<bar>q\<bar>) (- 1022);
               ulp = pow2 (e - 52);
               v = of_int (roundTiesToEven (\<bar>q\<bar> / ulp)) * ulp
           in if v \<ge> pow2 1024 then (if q > 0 then PosInfinity else NegInfinity)
              else Finite (if q > 0 then v else - v))"

definition signed_Infinity :: "bool \<Rightarrow> Number" where
  "signed_Infinity negative = (if negative then NegInfinity else PosInfinity)"

text \<open>The operators \<^verbatim>\<open>+\<close>, \<^verbatim>\<open>*\<close> and \<^verbatim>\<open>/\<close> on numbers.\<close>

fun js_add :: "Number \<Rightarrow> Number \<Rightarrow> Number" where
  "js_add NaN y = NaN"
| "js_add x NaN = NaN"
| "js_add (Finite a) (Finite b) = binary64 (a + b)"
| "js_add (Finite a) y = y"
| "js_add x (Finite b) = x"
| "js_add x y = (if x = y then x else NaN)"

fun js_mul :: "Number \<Rightarrow> Number \<Rightarrow> Number" where
  "js_mul NaN y = NaN"
| "js_mul x NaN = NaN"
| "js_mul (Finite a) (Finite b) = binary64 (a * b)"
| "js_mul (Finite a) y = (if a = 0 then NaN else signed_Infinity ((a < 0) \<noteq> (y = NegInfinity)))"
| "js_mul x (Finite b) = (if b = 0 then NaN else signed_Infinity ((x = NegInfinity) \<noteq> (b < 0)))"
| "js_mul x y = signed_Infinity ((x = NegInfinity) \<noteq> (y = NegInfinity))"

fun js_div :: "Number \<Rightarrow> Number \<Rightarrow> Number" where
  "js_div NaN y = NaN"
| "js_div x NaN = NaN"
| "js_div (Finite a) (Finite b) =
     (if b = 0 then (if a = 0 then NaN else signed_Infinity (a < 0)) else binary64 (a / b))"
| "js_div (Finite a) y = Finite 0"
| "js_div x (Finite b) = signed_Infinity ((x = NegInfinity) \<noteq> (b < 0))"
| "js_div x y = NaN"

text \<open>\<^verbatim>\<open>Math.round\<close>: the nearest integer, a tie going up.\<close>

fun Math_round :: "Number \<Rightarrow> Number" where
  "Math_round (Finite x) = Finite (of_int \<lfloor>x + 1 / 2\<rfloor>)"
| "Math_round x = x"

text \<open>The number value of an array length.\<close>

definition Number_of_nat :: "nat \<Rightarrow> Number" where
  "Number_of_nat n = binary64 (of_nat n)"

subsection \<open>Numbers and strings\<close>

text \<open>
  A string is the list of its code units, each below 256. \<^verbatim>\<open>parseFloat\<close> skips leading
  white space and reads the longest prefix that is a \<^verbatim>\<open>StrDecimalLiteral\<close>: an optional
  sign, then \<^verbatim>\<open>Infinity\<close> or decimal digits with an optional fraction and an optional
  exponent part. The result is the mathematical value of the literal, rounded to binary64;
  it is \<^verbatim>\<open>NaN\<close> when no prefix is a literal.
\<close>

definition StrWhiteSpaceChar :: "char \<Rightarrow> bool" where
  "StrWhiteSpaceChar c \<longleftrightarrow> (of_char c :: nat) \<in> {9, 10, 11, 12, 13, 32, 160}"

definition DecimalDigit :: "char \<Rightarrow> bool" where
  "DecimalDigit c \<longleftrightarrow> c \<in> set ''0123456789''"

definition DecimalDigits_MV :: "string \<Rightarrow> nat" where
  "DecimalDigits_MV ds = foldl (\<lambda>n c. 10 * n + (of_char c - 48)) 0 ds"

fun sign_prefix :: "string \<Rightarrow> bool \<times> string" where
  "sign_prefix [] = (False, [])"
| "sign_prefix (c # cs) =
     (if c = CHR ''-'' then (True, cs) else if c = CHR ''+'' then (False, cs) else (False, c # cs))"

definition pow10 :: "int \<Rightarrow> rat" where
  "pow10 e = (if e \<ge> 0 then 10 ^ nat e else 1 / 10 ^ nat (- e))"

text \<open>
  The value of the exponent part that starts the string; \<open>0\<close> when the string does not
  start with one (an exponent indicator with no digit after it is not part of the literal).
\<close>

fun ExponentPart_MV :: "string \<Rightarrow> int" where
  "ExponentPart_MV [] = 0"
| "ExponentPart_MV (c # cs) =
     (if c = CHR ''e'' \<or> c = CHR ''E''
      then (case sign_prefix cs of
              (negative, ds) \<Rightarrow>
                let n = int (DecimalDigits_MV (takeWhile DecimalDigit ds))
                in if negative then - n else n)
      else 0)"

datatype literal = NoLiteral | InfinityLiteral bool | DecimalLiteral rat

definition StrDecimalLiteral :: "string \<Rightarrow> literal" where
  "StrDecimalLiteral s =
     (case sign_prefix s of
        (negative, u) \<Rightarrow>
          if take 8 u = ''Infinity'' then InfinityLiteral negative
          else let ip = takeWhile DecimalDigit u;
                   r = dropWhile DecimalDigit u;
                   point = (r \<noteq> [] \<and> hd r = CHR ''.'');
                   fp = (if point then takeWhile DecimalDigit (tl r) else []);
                   rest = (if point then dropWhile DecimalDigit (tl r) else r)
               in if ip = [] \<and> fp = [] then NoLiteral
                  else let q = (of_nat (DecimalDigits_MV ip)
                                + of_nat (DecimalDigits_MV fp) / 10 ^ length fp)
                               * pow10 (ExponentPart_MV rest)
                       in DecimalLiteral (if negative then - q else q))"

definition parseFloat :: "string \<Rightarrow> Number" where
  "parseFloat s =
     (case StrDecimalLiteral (dropWhile StrWhiteSpaceChar s) of
        NoLiteral \<Rightarrow> NaN
      | InfinityLiteral negative \<Rightarrow> signed_Infinity negative
      | DecimalLiteral q \<Rightarrow> binary64 q)"

text \<open>The decimal digits of a natural number.\<close>

fun digits10 :: "nat \<Rightarrow> string" where
  "digits10 n =
     (if n < 10 then [''0123456789'' ! n]
      else digits10 (n div 10) @ [''0123456789'' ! (n mod 10)])"

text \<open>
  \<^verbatim>\<open>Number::toString\<close> of a finite \<open>x \<ge> 10^21\<close>, which is an integer: the digits
  \<open>s\<close> of the least length \<open>k\<close> such that \<open>s * 10^(n - k)\<close> rounds to \<open>x\<close> (the
  nearer to \<open>x\<close> of two such \<open>s\<close>), written in exponential notation. \<open>shortest x d j\<close>
  tries the lengths from \<open>d - j\<close> on, \<open>d\<close> being the number of digits of \<open>x\<close>.
\<close>

fun shortest :: "nat \<Rightarrow> nat \<Rightarrow> nat \<Rightarrow> nat \<times> nat" where
  "shortest x d 0 = (x, d)"
| "shortest x d (Suc j) =
     (let k = d - Suc j;
          lo = x div 10 ^ Suc j;
          hi = lo + 1;
          ok_lo = (binary64 (of_nat (lo * 10 ^ Suc j)) = Finite (of_nat x));
          ok_hi = (hi < 10 ^ k \<and> binary64 (of_nat (hi * 10 ^ Suc j)) = Finite (of_nat x));
          d_lo = x - lo * 10 ^ Suc j;
          d_hi = hi * 10 ^ Suc j - x
      in if ok_lo \<and> ok_hi
         then (if d_lo < d_hi \<or> (d_lo = d_hi \<and> even lo) then (lo, k) else (hi, k))
         else if ok_lo then (lo, k)
         else if ok_hi then (hi, k)
         else shortest x d j)"

definition exponential :: "nat \<Rightarrow> nat \<Rightarrow> string" where
  "exponential s n =
     (let ds = digits10 s
      in (if length ds = 1 then ds else hd ds # CHR ''.'' # tl ds) @ ''e+'' @ digits10 (n - 1))"

definition Number_toString_large :: "nat \<Rightarrow> string" where
  "Number_toString_large x =
     (let d = length (digits10 x)
      in if binary64 (10 ^ d) = Finite (of_nat x) then exponential 1 (d + 1)
         else case shortest x d (d - 1) of (s, k) \<Rightarrow> exponential s d)"

text \<open>
  \<^verbatim>\<open>x.toFixed(2)\<close>. For a finite \<open>x\<close> of magnitude below \<open>10^21\<close>: the integer \<open>n\<close>
  for which \<open>n / 100\<close> is nearest to the magnitude, the larger of two such, written with
  at least one digit before the decimal point and two after it.
\<close>

definition fixed_2 :: "nat \<Rightarrow> string" where
  "fixed_2 n =
     (let m = digits10 n;
          m' = (if length m \<le> 2 then replicate (3 - length m) CHR ''0'' @ m else m);
          k = length m'
      in take (k - 2) m' @ ''.'' @ drop (k - 2) m')"

fun toFixed_2 :: "Number \<Rightarrow> string" where
  "toFixed_2 NaN = ''NaN''"
| "toFixed_2 PosInfinity = ''Infinity''"
| "toFixed_2 NegInfinity = ''-Infinity''"
| "toFixed_2 (Finite x) =
     (if x < 0 then ''-'' else []) @
     (if \<bar>x\<bar> \<ge> 10 ^ 21 then Number_toString_large (nat \<lfloor>\<bar>x\<bar>\<rfloor>)
      else fixed_2 (nat \<lfloor>\<bar>x\<bar> * 100 + 1 / 2\<rfloor>))"

subsection \<open>Entities\<close>

text \<open>
  A nullable column is an option (\<open>None\<close> is \<^verbatim>\<open>null\<close>). A column that the insert
  schema makes optional is an option as well, \<open>None\<close> standing for a property that is
  null or missing: the store copies the properties of the insert as they are and applies
  no column default.
\<close>

record Room =
  room_id :: string
  number :: string
  room_type :: string
  room_status :: "string option"
  room_floor :: int
  maxOccupancy :: int
  basePrice :: string
  amenities :: "json option"
  lastCleaned :: "Date option"
  room_notes :: "string option"

text \<open>\<^verbatim>\<open>InsertRoom\<close>: the room without \<^verbatim>\<open>id\<close> and \<^verbatim>\<open>lastCleaned\<close>.\<close>

record InsertRoom =
  ins_number :: string
  ins_room_type :: string
  ins_room_status :: "string option"
  ins_room_floor :: int
  ins_maxOccupancy :: int
  ins_basePrice :: string
  ins_amenities :: "json option"
  ins_room_notes :: "string option"

text \<open>
  \<^verbatim>\<open>Partial<Room>\<close>: every property may be missing (\<open>None\<close>); a property that is
  present carries a value of the column's type.
\<close>

record Partial_Room =
  p_room_id :: "string option"
  p_number :: "string option"
  p_room_type :: "string option"
  p_room_status :: "string option option"
  p_room_floor :: "int option"
  p_maxOccupancy :: "int option"
  p_basePrice :: "string option"
  p_amenities :: "json option option"
  p_lastCleaned :: "Date option option"
  p_room_notes :: "string option option"

record Booking =
  booking_id :: string
  roomId :: string
  guestId :: string
  checkIn :: Date
  checkOut :: Date
  adults :: int
  children :: "int option"
  totalAmount :: string
  booking_status :: "string option"
  channel :: string
  specialRequests :: "string option"
  createdAt :: "Date option"
  cloudbedsSyncId :: "string option"

record InsertBooking =
  ins_roomId :: string
  ins_guestId :: string
  ins_checkIn :: Date
  ins_checkOut :: Date
  ins_adults :: int
  ins_children :: "int option"
  ins_totalAmount :: string
  ins_booking_status :: "string option"
  ins_channel :: string
  ins_specialRequests :: "string option"

record Partial_Booking =
  p_booking_id :: "string option"
  p_roomId :: "string option"
  p_guestId :: "string option"
  p_checkIn :: "Date option"
  p_checkOut :: "Date option"
  p_adults :: "int option"
  p_children :: "int option option"
  p_totalAmount :: "string option"
  p_booking_status :: "string option option"
  p_channel :: "string option"
  p_specialRequests :: "string option option"
  p_createdAt :: "Date option option"
  p_cloudbedsSyncId :: "string option option"

text \<open>
  A setting's value has type \<^verbatim>\<open>any\<close>: a JSON value, or \<^verbatim>\<open>undefined\<close> (\<open>None\<close>) when
  the request body has no \<^verbatim>\<open>value\<close>.
\<close>

record HotelSetting =
  setting_id :: string
  setting_key :: string
  setting_value :: "json option"
  updatedAt :: "Date option"

record MaintenanceRequest =
  request_id :: string
  request_roomId :: string
  staffId :: "string option"
  request_type :: string
  priority :: "string option"
  description :: string
  request_status :: "string option"
  request_createdAt :: "Date option"
  completedAt :: "Date option"
  request_notes :: "string option"

text \<open>The entities that no operation below reads are left abstract.\<close>

typedecl User
typedecl Guest
typedecl Staff
typedecl Payment
typedecl GuestCommunication

subsection \<open>The JavaScript Map\<close>

text \<open>
  A \<^verbatim>\<open>Map\<close> keeps its entries in insertion order; \<^verbatim>\<open>set\<close> on a key that is present
  replaces the value in place, and appends the entry otherwise.
\<close>

type_synonym ('k, 'v) Map = "('k \<times> 'v) list"

definition Map_get :: "('k, 'v) Map \<Rightarrow> 'k \<Rightarrow> 'v option" where
  "Map_get m k = map_of m k"

fun Map_set :: "'k \<Rightarrow> 'v \<Rightarrow> ('k, 'v) Map \<Rightarrow> ('k, 'v) Map" where
  "Map_set k v [] = [(k, v)]"
| "Map_set k v ((k', v') # m) = (if k' = k then (k, v) # m else (k', v') # Map_set k v m)"

definition Map_values :: "('k, 'v) Map \<Rightarrow> 'v list" where
  "Map_values m = map snd m"

definition Map_keys :: "('k, 'v) Map \<Rightarrow> 'k list" where
  "Map_keys m = map fst m"

record MemStorage =
  users :: "(string, User) Map"
  rooms :: "(string, Room) Map"
  guests :: "(string, Guest) Map"
  bookings :: "(string, Booking) Map"
  staff :: "(string, Staff) Map"
  maintenanceRequests :: "(string, MaintenanceRequest) Map"
  payments :: "(string, Payment) Map"
  guestCommunications :: "(string, GuestCommunication) Map"
  hotelSettings :: "(string, HotelSetting) Map"

subsection \<open>The constructor\<close>

text \<open>
  \<^verbatim>\<open>initializeData\<close> stores five sample rooms. \<open>uuid k\<close> and \<open>now k\<close> are the results
  of its \<open>k\<close>-th call of \<^verbatim>\<open>randomUUID()\<close> and of \<^verbatim>\<open>new Date()\<close>.
\<close>

definition empty_MemStorage :: MemStorage where
  "empty_MemStorage =
     \<lparr> users = [], rooms = [], guests = [], bookings = [], staff = [],
       maintenanceRequests = [], payments = [], guestCommunications = [],
       hotelSettings = [] \<rparr>"

definition sampleRooms :: "(nat \<Rightarrow> string) \<Rightarrow> (nat \<Rightarrow> int) \<Rightarrow> Room list" where
  "sampleRooms uuid now =
     [ \<lparr> room_id = uuid 0, number = ''101'', room_type = ''Standard King'',
         room_status = Some ''available'', room_floor = 1, maxOccupancy = 2,
         basePrice = ''285.00'',
         amenities = Some (JArray [JString ''WiFi'', JString ''TV'', JString ''Air Conditioning'']),
         lastCleaned = Some (Date (now 0)), room_notes = None \<rparr>,
       \<lparr> room_id = uuid 1, number = ''102'', room_type = ''Standard Twin'',
         room_status = Some ''occupied'', room_floor = 1, maxOccupancy = 2,
         basePrice = ''275.00'',
         amenities = Some (JArray [JString ''WiFi'', JString ''TV'', JString ''Air Conditioning'']),
         lastCleaned = Some (Date (now 1)), room_notes = None \<rparr>,
       \<lparr> room_id = uuid 2, number = ''103'', room_type = ''Deluxe King'',
         room_status = Some ''pending'', room_floor = 1, maxOccupancy = 2,
         basePrice = ''350.00'',
         amenities = Some (JArray [JString ''WiFi'', JString ''TV'', JString ''Air Conditioning'',
                                   JString ''Harbor View'']),
         lastCleaned = Some (Date (now 2)), room_notes = None \<rparr>,
       \<lparr> room_id = uuid 3, number = ''203'', room_type = ''Deluxe King'',
         room_status = Some ''available'', room_floor = 2, maxOccupancy = 2,
         basePrice = ''350.00'',
         amenities = Some (JArray [JString ''WiFi'', JString ''TV'', JString ''Air Conditioning'',
                                   JString ''Harbor View'']),
         lastCleaned = Some (Date (now 3)), room_notes = None \<rparr>,
       \<lparr> room_id = uuid 4, number = ''501'', room_type = ''Suite'',
         room_status = Some ''available'', room_floor = 5, maxOccupancy = 4,
         basePrice = ''550.00'',
         amenities = Some (JArray [JString ''WiFi'', JString ''TV'', JString ''Air Conditioning'',
                                   JString ''Harbor View'', JString ''Balcony'',
                                   JString ''Kitchenette'']),
         lastCleaned = Some (Date (now 4)), room_notes = None \<rparr> ]"

definition initializeData :: "(nat \<Rightarrow> string) \<Rightarrow> (nat \<Rightarrow> int) \<Rightarrow> MemStorage \<Rightarrow> MemStorage" where
  "initializeData uuid now s =
     foldl (\<lambda>s' room. s'\<lparr>rooms := Map_set (room_id room) room (rooms s')\<rparr>) s
       (sampleRooms uuid now)"

definition new_MemStorage :: "(nat \<Rightarrow> string) \<Rightarrow> (nat \<Rightarrow> int) \<Rightarrow> MemStorage" where
  "new_MemStorage uuid now = initializeData uuid now empty_MemStorage"

subsection \<open>Room methods\<close>

definition getRooms :: "MemStorage \<Rightarrow> Room list" where
  "getRooms s = Map_values (rooms s)"

definition getRoom :: "string \<Rightarrow> MemStorage \<Rightarrow> Room option" where
  "getRoom id' s = Map_get (rooms s) id'"

text \<open>\<^verbatim>\<open>{ ...insertRoom, id, lastCleaned: null }\<close>\<close>

definition createRoom :: "string \<Rightarrow> InsertRoom \<Rightarrow> MemStorage \<Rightarrow> Room \<times> MemStorage" where
  "createRoom uuid insertRoom s =
     (let room = \<lparr> room_id = uuid,
                   number = ins_number insertRoom,
                   room_type = ins_room_type insertRoom,
                   room_status = ins_room_status insertRoom,
                   room_floor = ins_room_floor insertRoom,
                   maxOccupancy = ins_maxOccupancy insertRoom,
                   basePrice = ins_basePrice insertRoom,
                   amenities = ins_amenities insertRoom,
                   lastCleaned = None,
                   room_notes = ins_room_notes insertRoom \<rparr>
      in (room, s\<lparr>rooms := Map_set uuid room (rooms s)\<rparr>))"

text \<open>
  \<^verbatim>\<open>{ ...room, ...updates }\<close>: a property of \<^verbatim>\<open>updates\<close> overrides the property
  of the same name of \<^verbatim>\<open>room\<close>, \<^verbatim>\<open>id\<close> included.
\<close>

definition override :: "'a \<Rightarrow> 'a option \<Rightarrow> 'a" where
  "override old new = (case new of None \<Rightarrow> old | Some v \<Rightarrow> v)"

definition spread_Room :: "Room \<Rightarrow> Partial_Room \<Rightarrow> Room" where
  "spread_Room room updates =
     \<lparr> room_id = override (room_id room) (p_room_id updates),
       number = override (number room) (p_number updates),
       room_type = override (room_type room) (p_room_type updates),
       room_status = override (room_status room) (p_room_status updates),
       room_floor = override (room_floor room) (p_room_floor updates),
       maxOccupancy = override (maxOccupancy room) (p_maxOccupancy updates),
       basePrice = override (basePrice room) (p_basePrice updates),
       amenities = override (amenities room) (p_amenities updates),
       lastCleaned = override (lastCleaned room) (p_lastCleaned updates),
       room_notes = override (room_notes room) (p_room_notes updates) \<rparr>"

definition updateRoom ::
  "string \<Rightarrow> Partial_Room \<Rightarrow> MemStorage \<Rightarrow> (error + Room) \<times> MemStorage" where
  "updateRoom id' updates s =
     (case Map_get (rooms s) id' of
        None \<Rightarrow> (Inl (Error ''Room not found''), s)
      | Some room \<Rightarrow>
          let updatedRoom = spread_Room room updates
          in (Inr updatedRoom, s\<lparr>rooms := Map_set id' updatedRoom (rooms s)\<rparr>))"

text \<open>The object literal \<^verbatim>\<open>{}\<close>, and \<^verbatim>\<open>{ status }\<close>.\<close>

definition empty_Partial_Room :: Partial_Room where
  "empty_Partial_Room =
     \<lparr> p_room_id = None, p_number = None, p_room_type = None, p_room_status = None,
       p_room_floor = None, p_maxOccupancy = None, p_basePrice = None, p_amenities = None,
       p_lastCleaned = None, p_room_notes = None \<rparr>"

definition updateRoomStatus ::
  "string \<Rightarrow> string \<Rightarrow> MemStorage \<Rightarrow> (error + Room) \<times> MemStorage" where
  "updateRoomStatus id' status s =
     updateRoom id' (empty_Partial_Room\<lparr>p_room_status := Some (Some status)\<rparr>) s"

subsection \<open>Booking methods\<close>

definition getBookings :: "MemStorage \<Rightarrow> Booking list" where
  "getBookings s = Map_values (bookings s)"

definition getBooking :: "string \<Rightarrow> MemStorage \<Rightarrow> Booking option" where
  "getBooking id' s = Map_get (bookings s) id'"

definition getBookingsByDateRange :: "Date \<Rightarrow> Date \<Rightarrow> MemStorage \<Rightarrow> Booking list" where
  "getBookingsByDateRange checkIn' checkOut' s =
     filter (\<lambda>booking. date_ge (checkIn booking) checkIn' \<and> date_le (checkOut booking) checkOut')
       (Map_values (bookings s))"

text \<open>
  \<^verbatim>\<open>{ ...insertBooking, id, createdAt: new Date(), cloudbedsSyncId: null }\<close>
\<close>

definition createBooking ::
  "string \<Rightarrow> int \<Rightarrow> InsertBooking \<Rightarrow> MemStorage \<Rightarrow> Booking \<times> MemStorage" where
  "createBooking uuid now insertBooking s =
     (let booking = \<lparr> booking_id = uuid,
                      roomId = ins_roomId insertBooking,
                      guestId = ins_guestId insertBooking,
                      checkIn = ins_checkIn insertBooking,
                      checkOut = ins_checkOut insertBooking,
                      adults = ins_adults insertBooking,
                      children = ins_children insertBooking,
                      totalAmount = ins_totalAmount insertBooking,
                      booking_status = ins_booking_status insertBooking,
                      channel = ins_channel insertBooking,
                      specialRequests = ins_specialRequests insertBooking,
                      createdAt = Some (Date now),
                      cloudbedsSyncId = None \<rparr>
      in (booking, s\<lparr>bookings := Map_set uuid booking (bookings s)\<rparr>))"

definition spread_Booking :: "Booking \<Rightarrow> Partial_Booking \<Rightarrow> Booking" where
  "spread_Booking booking updates =
     \<lparr> booking_id = override (booking_id booking) (p_booking_id updates),
       roomId = override (roomId booking) (p_roomId updates),
       guestId = override (guestId booking) (p_guestId updates),
       checkIn = override (checkIn booking) (p_checkIn updates),
       checkOut = override (checkOut booking) (p_checkOut updates),
       adults = override (adults booking) (p_adults updates),
       children = override (children booking) (p_children updates),
       totalAmount = override (totalAmount booking) (p_totalAmount updates),
       booking_status = override (booking_status booking) (p_booking_status updates),
       channel = override (channel booking) (p_channel updates),
       specialRequests = override (specialRequests booking) (p_specialRequests updates),
       createdAt = override (createdAt booking) (p_createdAt updates),
       cloudbedsSyncId = override (cloudbedsSyncId booking) (p_cloudbedsSyncId updates) \<rparr>"

definition updateBooking ::
  "string \<Rightarrow> Partial_Booking \<Rightarrow> MemStorage \<Rightarrow> (error + Booking) \<times> MemStorage" where
  "updateBooking id' updates s =
     (case Map_get (bookings s) id' of
        None \<Rightarrow> (Inl (Error ''Booking not found''), s)
      | Some booking \<Rightarrow>
          let updatedBooking = spread_Booking booking updates
          in (Inr updatedBooking, s\<lparr>bookings := Map_set id' updatedBooking (bookings s)\<rparr>))"

subsection \<open>Hotel settings methods\<close>

definition getHotelSetting :: "string \<Rightarrow> MemStorage \<Rightarrow> HotelSetting option" where
  "getHotelSetting key s =
     find (\<lambda>setting. setting_key setting = key) (Map_values (hotelSettings s))"

definition updateHotelSetting ::
  "string \<Rightarrow> json option \<Rightarrow> int \<Rightarrow> string \<Rightarrow> MemStorage \<Rightarrow> HotelSetting \<times> MemStorage" where
  "updateHotelSetting key v now uuid s =
     (case getHotelSetting key s of
        Some existing \<Rightarrow>
          let updated = existing\<lparr>setting_value := v, updatedAt := Some (Date now)\<rparr>
          in (updated,
              s\<lparr>hotelSettings := Map_set (setting_id existing) updated (hotelSettings s)\<rparr>)
      | None \<Rightarrow>
          let setting = \<lparr> setting_id = uuid, setting_key = key, setting_value = v,
                          updatedAt = Some (Date now) \<rparr>
          in (setting, s\<lparr>hotelSettings := Map_set uuid setting (hotelSettings s)\<rparr>))"

subsection \<open>Local time\<close>

text \<open>
  The methods of \<^verbatim>\<open>Date\<close> follow ECMA-262. The host's time zone is the function
  \<open>tza\<close> (\<^verbatim>\<open>LocalTZA(t, isUTC)\<close>): the offset of local time from UTC, in
  milliseconds, at the UTC time \<open>t\<close> (\<open>isUTC\<close> true) or at the local time \<open>t\<close>
  (\<open>isUTC\<close> false). A time value beyond 8.64e15 milliseconds from the epoch is clipped to
  \<^verbatim>\<open>NaN\<close>.
\<close>

definition msPerDay :: int where
  "msPerDay = 86400000"

definition LocalTime :: "(int \<Rightarrow> bool \<Rightarrow> int) \<Rightarrow> int \<Rightarrow> int" where
  "LocalTime tza t = t + tza t True"

definition UTC :: "(int \<Rightarrow> bool \<Rightarrow> int) \<Rightarrow> int \<Rightarrow> int" where
  "UTC tza t = t - tza t False"

definition TimeClip :: "int \<Rightarrow> Date" where
  "TimeClip t = (if \<bar>t\<bar> > 8640000000000000 then InvalidDate else Date t)"

definition Day :: "int \<Rightarrow> int" where
  "Day t = t div msPerDay"

text \<open>
  \<^verbatim>\<open>d.setHours(0, 0, 0, 0)\<close>: the start of the local day of \<open>d\<close>, that is
  \<^verbatim>\<open>TimeClip(UTC(MakeDate(Day(LocalTime(t)), MakeTime(0, 0, 0, 0))))\<close>.
\<close>

fun setHours0 :: "(int \<Rightarrow> bool \<Rightarrow> int) \<Rightarrow> Date \<Rightarrow> Date" where
  "setHours0 tza InvalidDate = InvalidDate"
| "setHours0 tza (Date t) = TimeClip (UTC tza (Day (LocalTime tza t) * msPerDay))"

text \<open>
  \<^verbatim>\<open>d.setDate(d.getDate() + 1)\<close>: \<^verbatim>\<open>MakeDay\<close> with the day of the month plus one is
  the next day number, and the time within the day is kept, so the new local time is the
  old one plus one day.
\<close>

fun setDate_next :: "(int \<Rightarrow> bool \<Rightarrow> int) \<Rightarrow> Date \<Rightarrow> Date" where
  "setDate_next tza InvalidDate = InvalidDate"
| "setDate_next tza (Date t) = TimeClip (UTC tza (LocalTime tza t + msPerDay))"

definition getTodaysArrivals ::
  "int \<Rightarrow> (int \<Rightarrow> bool \<Rightarrow> int) \<Rightarrow> MemStorage \<Rightarrow> Booking list" where
  "getTodaysArrivals now tza s =
     (let today = setHours0 tza (Date now);
          tomorrow = setDate_next tza today
      in filter (\<lambda>booking. date_ge (checkIn booking) today \<and> date_lt (checkIn booking) tomorrow)
           (Map_values (bookings s)))"

definition getTodaysDepartures ::
  "int \<Rightarrow> (int \<Rightarrow> bool \<Rightarrow> int) \<Rightarrow> MemStorage \<Rightarrow> Booking list" where
  "getTodaysDepartures now tza s =
     (let today = setHours0 tza (Date now);
          tomorrow = setDate_next tza today
      in filter (\<lambda>booking. date_ge (checkOut booking) today \<and> date_lt (checkOut booking) tomorrow)
           (Map_values (bookings s)))"

subsection \<open>Maintenance methods\<close>

definition getPendingMaintenanceRequests :: "MemStorage \<Rightarrow> MaintenanceRequest list" where
  "getPendingMaintenanceRequests s =
     filter (\<lambda>request. request_status request = Some ''pending'')
       (Map_values (maintenanceRequests s))"

subsection \<open>The dashboard metrics\<close>

text \<open>
  The handler of \<^verbatim>\<open>GET /api/dashboard/metrics\<close>. \<open>now'\<close> is the time at which
  \<^verbatim>\<open>getTodaysArrivals\<close> runs and \<open>now\<close> the time of the handler's own \<^verbatim>\<open>new Date()\<close>.
  No operation of the handler throws. \<^verbatim>\<open>res.json\<close> writes a \<^verbatim>\<open>NaN\<close> as \<^verbatim>\<open>null\<close>.
\<close>

record DashboardMetrics =
  occupancyRate :: Number
  revenue :: string
  pendingCheckins :: nat
  pendingMaintenanceRequests :: nat
  totalRooms :: nat
  occupiedRooms :: nat
  availableRooms :: nat
  maintenanceRooms :: nat

definition todaysBookings :: "int \<Rightarrow> (int \<Rightarrow> bool \<Rightarrow> int) \<Rightarrow> Booking list \<Rightarrow> Booking list" where
  "todaysBookings now tza bookings' =
     (let today = setHours0 tza (Date now)
      in filter (\<lambda>booking. getTime_eq (setHours0 tza (checkIn booking)) today) bookings')"

definition dashboard_metrics ::
  "int \<Rightarrow> int \<Rightarrow> (int \<Rightarrow> bool \<Rightarrow> int) \<Rightarrow> MemStorage \<Rightarrow> DashboardMetrics" where
  "dashboard_metrics now' now tza s =
     (let rooms' = getRooms s;
          bookings' = getBookings s;
          todaysArrivals = getTodaysArrivals now' tza s;
          maintenanceRequests' = getPendingMaintenanceRequests s;
          totalRooms' = length rooms';
          occupiedRooms' = length (filter (\<lambda>room. room_status room = Some ''occupied'') rooms');
          occupancyRate' =
            Math_round (js_mul (js_div (Number_of_nat occupiedRooms') (Number_of_nat totalRooms'))
                          (Finite 100));
          revenue' = foldl (\<lambda>sum booking. js_add sum (parseFloat (totalAmount booking)))
                       (Finite 0) (todaysBookings now tza bookings')
      in \<lparr> occupancyRate = occupancyRate',
           revenue = toFixed_2 revenue',
           pendingCheckins = length todaysArrivals,
           pendingMaintenanceRequests = length maintenanceRequests',
           totalRooms = totalRooms',
           occupiedRooms = occupiedRooms',
           availableRooms = length (filter (\<lambda>room. room_status room = Some ''available'') rooms'),
           maintenanceRooms =
             length (filter (\<lambda>room. room_status room = Some ''maintenance'') rooms') \<rparr>)"

text \<open>
  The occupancy rate as the specification words it: \<open>100 * occupied / total\<close>, rounded
  to the nearest integer.
\<close>

definition spec_occupancyRate :: "nat \<Rightarrow> nat \<Rightarrow> int" where
  "spec_occupancyRate occupied n = round (100 * of_nat occupied / of_nat n :: rat)"

subsection \<open>Well-formed stores and sequences of calls\<close>

text \<open>
  Every method stores an entity under the entity's own id, and the keys of a \<^verbatim>\<open>Map\<close>
  are distinct.
\<close>

definition settings_wf :: "MemStorage \<Rightarrow> bool" where
  "settings_wf s \<longleftrightarrow>
     distinct (Map_keys (hotelSettings s))
     \<and> list_all (\<lambda>(k, setting). setting_id setting = k) (hotelSettings s)"

definition ids_wf :: "MemStorage \<Rightarrow> bool" where
  "ids_wf s \<longleftrightarrow>
     list_all (\<lambda>(k, room). room_id room = k) (rooms s)
     \<and> list_all (\<lambda>(k, booking). booking_id booking = k) (bookings s)"

text \<open>
  The calls that write rooms and bookings, each with the values that \<^verbatim>\<open>randomUUID()\<close>
  and \<^verbatim>\<open>new Date()\<close> return in it. A call that throws leaves the store as it is, and the
  next call runs on that store.
\<close>

datatype call =
    CreateRoom string InsertRoom
  | UpdateRoom string Partial_Room
  | UpdateRoomStatus string string
  | CreateBooking string int InsertBooking
  | UpdateBooking string Partial_Booking

fun perform :: "call \<Rightarrow> MemStorage \<Rightarrow> MemStorage" where
  "perform (CreateRoom uuid insertRoom) s = snd (createRoom uuid insertRoom s)"
| "perform (UpdateRoom id' updates) s = snd (updateRoom id' updates s)"
| "perform (UpdateRoomStatus id' status) s = snd (updateRoomStatus id' status s)"
| "perform (CreateBooking uuid now insertBooking) s = snd (createBooking uuid now insertBooking s)"
| "perform (UpdateBooking id' updates) s = snd (updateBooking id' updates s)"

fun run :: "call list \<Rightarrow> MemStorage \<Rightarrow> MemStorage" where
  "run [] s = s"
| "run (c # cs) s = run cs (perform c s)"

text \<open>
  A call keeps the ids when its partial has no \<^verbatim>\<open>id\<close> property, or when the id it
  generates is not a key of the collection already.
\<close>

fun keeps_ids :: "call \<Rightarrow> MemStorage \<Rightarrow> bool" where
  "keeps_ids (CreateRoom uuid insertRoom) s \<longleftrightarrow> uuid \<notin> set (Map_keys (rooms s))"
| "keeps_ids (UpdateRoom id' updates) s \<longleftrightarrow> p_room_id updates = None"
| "keeps_ids (UpdateRoomStatus id' status) s \<longleftrightarrow> True"
| "keeps_ids (CreateBooking uuid now insertBooking) s \<longleftrightarrow> uuid \<notin> set (Map_keys (bookings s))"
| "keeps_ids (UpdateBooking id' updates) s \<longleftrightarrow> p_booking_id updates = None"

fun all_keep_ids :: "call list \<Rightarrow> MemStorage \<Rightarrow> bool" where
  "all_keep_ids [] s \<longleftrightarrow> True"
| "all_keep_ids (c # cs) s \<longleftrightarrow> keeps_ids c s \<and> all_keep_ids cs (perform c s)"

subsection \<open>Example data\<close>

text \<open>
  A freshly constructed store whose five generated ids are \<open>r1\<close> to \<open>r5\<close>, and a
  booking request with the given stay and amount.
\<close>

definition example_store :: MemStorage where
  "example_store = new_MemStorage (\<lambda>k. [''r1'', ''r2'', ''r3'', ''r4'', ''r5''] ! k) (\<lambda>k. 0)"

definition example_InsertBooking :: "Date \<Rightarrow> Date \<Rightarrow> string \<Rightarrow> InsertBooking" where
  "example_InsertBooking ci co amount =
     \<lparr> ins_roomId = ''r1'', ins_guestId = ''g1'', ins_checkIn = ci, ins_checkOut = co,
       ins_adults = 2, ins_children = Some 0, ins_totalAmount = amount,
       ins_booking_status = Some ''confirmed'', ins_channel = ''direct'',
       ins_specialRequests = None \<rparr>"

text \<open>
  A fixed time zone ten hours ahead of UTC and a time of call (11:13:20 local time); a
  booking created at that time; a room request; the store after 35 rooms are created, 22
  of them occupied, beside the five sample rooms (40 rooms, 23 occupied); a store of four
  rooms, one of them occupied; and three stores with bookings that check in on the day of
  the call.
\<close>

definition example_tza :: "int \<Rightarrow> bool \<Rightarrow> int" where
  "example_tza t isUTC = 36000000"

definition example_now :: int where
  "example_now = 1730510000000"

definition book :: "string \<Rightarrow> int \<Rightarrow> string \<Rightarrow> call" where
  "book uuid t amount =
     CreateBooking uuid example_now (example_InsertBooking (Date t) (Date (t + 86400000)) amount)"

definition example_InsertRoom :: "string \<Rightarrow> string \<Rightarrow> InsertRoom" where
  "example_InsertRoom n status =
     \<lparr> ins_number = n, ins_room_type = ''Standard King'', ins_room_status = Some status,
       ins_room_floor = 6, ins_maxOccupancy = 2, ins_basePrice = ''285.00'',
       ins_amenities = None, ins_room_notes = None \<rparr>"

definition forty_rooms :: MemStorage where
  "forty_rooms =
     run (map (\<lambda>k. CreateRoom (''n'' @ digits10 k)
                 (example_InsertRoom (digits10 (600 + k))
                    (if k < 22 then ''occupied'' else ''available'')))
            [0..<35])
       example_store"

definition four_rooms :: MemStorage where
  "four_rooms =
     run [CreateRoom ''n1'' (example_InsertRoom ''601'' ''occupied''),
          CreateRoom ''n2'' (example_InsertRoom ''602'' ''available''),
          CreateRoom ''n3'' (example_InsertRoom ''603'' ''maintenance''),
          CreateRoom ''n4'' (example_InsertRoom ''604'' ''available'')] empty_MemStorage"

definition two_amounts :: MemStorage where
  "two_amounts =
     run [book ''b1'' 1730469600000 ''99.99'',
          book ''b2'' 1730500000000 ''0.01'',
          book ''b3'' 1730556000000 ''5.00''] example_store"

definition large_amount :: MemStorage where
  "large_amount = run [book ''b1'' 1730469600000 ''90071992547409.93''] example_store"

definition negative_amounts :: MemStorage where
  "negative_amounts =
     run [book ''b1'' 1730469600000 ''-0.10'',
          book ''b2'' 1730500000000 ''-0.20'',
          book ''b3'' 1730510000000 ''0.30''] example_store"

section \<open>Properties\<close>

subsection \<open>The Map\<close>

lemma Map_get_Map_set: "Map_get (Map_set k v m) k' = (if k' = k then Some v else Map_get m k')"
  by (induction m) (auto simp: Map_get_def)

lemma Map_keys_Map_set:
  "Map_keys (Map_set k v m) = (if k \<in> set (Map_keys m) then Map_keys m else Map_keys m @ [k])"
  by (induction m) (force simp: Map_keys_def)+

lemma Map_get_None_iff: "Map_get m k = None \<longleftrightarrow> k \<notin> set (Map_keys m)"
  by (simp add: Map_get_def Map_keys_def map_of_eq_None_iff)

lemma Map_get_list_all: "list_all Q m \<Longrightarrow> Map_get m k = Some v \<Longrightarrow> Q (k, v)"
  by (auto simp: Map_get_def list_all_iff dest: map_of_SomeD)

lemma Map_get_Some_iff: "Map_get m k \<noteq> None \<longleftrightarrow> k \<in> set (Map_keys m)"
  by (simp add: Map_get_None_iff)

lemma Map_set_append: "k \<notin> set (Map_keys m) \<Longrightarrow> Map_set k v m = m @ [(k, v)]"
  by (induction m) (auto simp: Map_keys_def)

lemma find_Map_set_existing:
  assumes "distinct (Map_keys m)" "list_all (\<lambda>(k, x). f x = k) m"
    and "find P (Map_values m) = Some x" "P y"
  shows "find P (Map_values (Map_set (f x) y m)) = Some y"
  using assms
proof (induction m)
  case Nil
  then show ?case by (simp add: Map_values_def)
next
  case (Cons p m)
  obtain k z where p: "p = (k, z)" by (cases p)
  show ?case
  proof (cases "P z")
    case True
    with Cons.prems p show ?thesis by (simp add: Map_values_def)
  next
    case False
    with Cons.prems p have fx: "find P (Map_values m) = Some x"
      by (simp add: Map_values_def)
    then have "x \<in> set (Map_values m)"
      by (metis find_Some_iff nth_mem)
    then obtain j where "(j, x) \<in> set m"
      by (auto simp: Map_values_def)
    moreover from Cons.prems p have "list_all (\<lambda>(k, x). f x = k) m" by simp
    ultimately have "(f x, x) \<in> set m"
      by (auto simp: list_all_iff)
    with Cons.prems(1) p have "k \<noteq> f x"
      by (auto simp: Map_keys_def rev_image_eqI)
    moreover from Cons.prems p fx have "find P (Map_values (Map_set (f x) y m)) = Some y"
      using Cons.IH \<open>P y\<close> by (simp add: Map_keys_def)
    ultimately show ?thesis
      using False p by (simp add: Map_values_def)
  qed
qed

lemma find_append_new: "find P xs = None \<Longrightarrow> P y \<Longrightarrow> find P (xs @ [y]) = Some y"
  by (induction xs) (auto split: if_splits)

lemma find_Some_mem: "find P xs = Some x \<Longrightarrow> x \<in> set xs \<and> P x"
  by (induction xs) (auto split: if_splits)

lemma list_all_Map_set:
  "list_all Q m \<Longrightarrow> Q (k, v) \<Longrightarrow> list_all Q (Map_set k v m)"
  by (induction m) auto

subsection \<open>Example data\<close>

lemma example_store_rooms:
  "Map_keys (rooms example_store) = [''r1'', ''r2'', ''r3'', ''r4'', ''r5'']"
  by (simp add: example_store_def new_MemStorage_def initializeData_def sampleRooms_def
      empty_MemStorage_def Map_keys_def)

lemmas example_defs =
  example_store_def new_MemStorage_def initializeData_def sampleRooms_def empty_MemStorage_def
  example_InsertBooking_def createBooking_def getRoom_def getBooking_def Map_get_def Let_def

subsection \<open>Date-range query\<close>

text \<open>
  C2. For all query dates \<open>start\<close> and \<open>end\<close>, a booking \<open>b\<close> is in the result of
  \<^verbatim>\<open>getBookingsByDateRange(start, end)\<close> if and only if it is in the store with
  \<^verbatim>\<open>b.checkIn >= start\<close> and \<^verbatim>\<open>b.checkOut <= end\<close>: the test is containment. In
  particular a stored booking whose check-in lies in the queried range and whose check-out
  is after \<open>end\<close> is not in the result.
\<close>

theorem getBookingsByDateRange_containment:
  "(b \<in> set (getBookingsByDateRange start end s) \<longleftrightarrow>
      b \<in> set (getBookings s) \<and> date_ge (checkIn b) start \<and> date_le (checkOut b) end)
   \<and> (b \<in> set (getBookings s) \<and> date_ge (checkIn b) start \<and> date_le (checkIn b) end
        \<and> date_gt (checkOut b) end
      \<longrightarrow> b \<notin> set (getBookingsByDateRange start end s))"
proof -
  have excl: "date_gt x y \<Longrightarrow> \<not> date_le x y" for x y
    by (cases x; cases y) auto
  show ?thesis
    using excl by (auto simp: getBookingsByDateRange_def getBookings_def)
qed

theorem getBookingsByDateRange_containment_witness:
  "let s = snd (createBooking ''b1'' 0 (example_InsertBooking (Date 10) (Date 30) ''100.00'') example_store);
       b = the (getBooking ''b1'' s)
   in b \<in> set (getBookings s) \<and> date_ge (checkIn b) (Date 0) \<and> date_le (checkIn b) (Date 20)
      \<and> date_gt (checkOut b) (Date 20) \<and> b \<notin> set (getBookingsByDateRange (Date 0) (Date 20) s)"
proof -
  define s where "s = snd (createBooking ''b1'' 0 (example_InsertBooking (Date 10) (Date 30) ''100.00'') example_store)"
  define b where "b = the (getBooking ''b1'' s)"
  have h: "b \<in> set (getBookings s) \<and> date_ge (checkIn b) (Date 0) \<and> date_le (checkIn b) (Date 20)
      \<and> date_gt (checkOut b) (Date 20)"
    by (simp add: b_def s_def createBooking_def example_InsertBooking_def example_store_def
        new_MemStorage_def initializeData_def sampleRooms_def empty_MemStorage_def getBooking_def
        getBookings_def Map_get_def Map_values_def Let_def)
  show ?thesis
    unfolding Let_def s_def [symmetric] b_def [symmetric]
    using getBookingsByDateRange_containment [of b "Date 0" "Date 20" s] h
    by blast
qed

subsection \<open>Updates\<close>



text \<open>
  C4. For every id that the collection does not hold and every partial, the update fails
  with the error \<open>Room not found\<close> (\<open>Booking not found\<close>) and the store after the call
  is the store before it.
\<close>

theorem update_unknown_id:
  "(getRoom i s = None \<longrightarrow> updateRoom i P s = (Inl (Error ''Room not found''), s))
   \<and> (getBooking j s = None \<longrightarrow> updateBooking j Q s = (Inl (Error ''Booking not found''), s))"
  by (simp add: updateRoom_def getRoom_def updateBooking_def getBooking_def)

theorem update_unknown_id_witness:
  "getRoom ''r9'' example_store = None \<and> getBooking ''b9'' example_store = None
   \<and> updateRoom ''r9'' empty_Partial_Room example_store
       = (Inl (Error ''Room not found''), example_store)
   \<and> updateBooking ''b9''
         \<lparr> p_booking_id = None, p_roomId = None, p_guestId = None, p_checkIn = None,
           p_checkOut = None, p_adults = None, p_children = None, p_totalAmount = None,
           p_booking_status = Some (Some ''cancelled''), p_channel = None,
           p_specialRequests = None, p_createdAt = None, p_cloudbedsSyncId = None \<rparr>
         example_store
       = (Inl (Error ''Booking not found''), example_store)"
proof -
  have h: "getRoom ''r9'' example_store = None" "getBooking ''b9'' example_store = None"
    by (simp_all add: example_defs)
  show ?thesis
    using update_unknown_id [of "''r9''" example_store _ "''b9''"] h by blast
qed

text \<open>
  C9. For every room id and every status, \<^verbatim>\<open>updateRoomStatus(id, status)\<close> returns what
  \<^verbatim>\<open>updateRoom(id, { status })\<close> returns, error included, and leaves the same store.
\<close>

theorem updateRoomStatus_is_updateRoom:
  "updateRoomStatus i st s =
     updateRoom i
       \<lparr> p_room_id = None, p_number = None, p_room_type = None, p_room_status = Some (Some st),
         p_room_floor = None, p_maxOccupancy = None, p_basePrice = None, p_amenities = None,
         p_lastCleaned = None, p_room_notes = None \<rparr> s"
  by (simp add: updateRoomStatus_def empty_Partial_Room_def)

subsection \<open>Creation\<close>

text \<open>
  C10. For every insert, \<^verbatim>\<open>createRoom\<close> returns a room whose \<^verbatim>\<open>lastCleaned\<close> is
  \<^verbatim>\<open>null\<close>, and stores that room under the generated id. The insert has no
  \<^verbatim>\<open>lastCleaned\<close> property, and the creation time is not used.
\<close>

theorem createRoom_lastCleaned_null:
  "lastCleaned (fst (createRoom uuid insertRoom s)) = None
   \<and> getRoom uuid (snd (createRoom uuid insertRoom s)) = Some (fst (createRoom uuid insertRoom s))"
  by (simp add: createRoom_def getRoom_def Map_get_Map_set Let_def)

subsection \<open>Settings\<close>

text \<open>
  C8. \<^verbatim>\<open>updateHotelSetting(key, value)\<close> upserts by key. In a well-formed store, and with
  a generated id that is not yet a key of the collection: the setting returned has the
  given key and value and the time of the call as \<^verbatim>\<open>updatedAt\<close>, and a following
  \<^verbatim>\<open>getHotelSetting(key)\<close> returns it. If a setting with the key exists, the result
  keeps that setting's id and the collection keeps its keys (no entity is created);
  otherwise the result has the generated id, which is appended to the keys. Every other
  setting is left as it is, and the store stays well-formed.
\<close>

theorem updateHotelSetting_upsert:
  assumes "settings_wf s"
    and "getHotelSetting k s = None \<Longrightarrow> uuid \<notin> set (Map_keys (hotelSettings s))"
  shows "case updateHotelSetting k v now uuid s of
           (r, s') \<Rightarrow>
             setting_key r = k \<and> setting_value r = v \<and> updatedAt r = Some (Date now)
             \<and> getHotelSetting k s' = Some r
             \<and> (case getHotelSetting k s of
                  Some existing \<Rightarrow>
                    setting_id r = setting_id existing
                    \<and> Map_keys (hotelSettings s') = Map_keys (hotelSettings s)
                | None \<Rightarrow>
                    setting_id r = uuid
                    \<and> Map_keys (hotelSettings s') = Map_keys (hotelSettings s) @ [uuid])
             \<and> (\<forall>i. i \<noteq> setting_id r \<longrightarrow>
                    Map_get (hotelSettings s') i = Map_get (hotelSettings s) i)
             \<and> settings_wf s'"
proof (cases "getHotelSetting k s")
  case None
  let ?r = "\<lparr> setting_id = uuid, setting_key = k, setting_value = v,
              updatedAt = Some (Date now) \<rparr>"
  from None have no: "find (\<lambda>x. setting_key x = k) (Map_values (hotelSettings s)) = None"
    by (simp add: getHotelSetting_def)
  from assms(2) [OF None] have fresh: "uuid \<notin> set (Map_keys (hotelSettings s))" .
  have app: "Map_set uuid ?r (hotelSettings s) = hotelSettings s @ [(uuid, ?r)]"
    using fresh by (rule Map_set_append)
  have found: "find (\<lambda>x. setting_key x = k)
      (Map_values (Map_set uuid ?r (hotelSettings s))) = Some ?r"
    using find_append_new [OF no, of ?r] by (simp add: app Map_values_def)
  have keys: "Map_keys (Map_set uuid ?r (hotelSettings s)) = Map_keys (hotelSettings s) @ [uuid]"
    using fresh by (simp add: Map_keys_Map_set)
  from assms(1) have "list_all (\<lambda>(k, x). setting_id x = k) (hotelSettings s)"
    by (simp add: settings_wf_def)
  then have "list_all (\<lambda>(k, x). setting_id x = k) (Map_set uuid ?r (hotelSettings s))"
    by (rule list_all_Map_set) simp
  then show ?thesis
    using None found keys assms(1) fresh
    by (simp add: updateHotelSetting_def getHotelSetting_def Map_get_Map_set settings_wf_def
        Let_def)
next
  case (Some ex)
  let ?r = "ex\<lparr>setting_value := v, updatedAt := Some (Date now)\<rparr>"
  from Some have f: "find (\<lambda>x. setting_key x = k) (Map_values (hotelSettings s)) = Some ex"
    by (simp add: getHotelSetting_def)
  then have ex: "ex \<in> set (Map_values (hotelSettings s))" "setting_key ex = k"
    using find_Some_mem by fastforce+
  from assms(1) have wf: "distinct (Map_keys (hotelSettings s))"
    "list_all (\<lambda>(k, x). setting_id x = k) (hotelSettings s)"
    by (simp_all add: settings_wf_def)
  have found: "find (\<lambda>x. setting_key x = k)
      (Map_values (Map_set (setting_id ex) ?r (hotelSettings s))) = Some ?r"
    using find_Map_set_existing [OF wf f, of ?r] ex by simp
  from ex(1) wf(2) have key: "setting_id ex \<in> set (Map_keys (hotelSettings s))"
    by (auto simp: Map_values_def Map_keys_def list_all_iff rev_image_eqI)
  have keys: "Map_keys (Map_set (setting_id ex) ?r (hotelSettings s)) = Map_keys (hotelSettings s)"
    using key by (simp add: Map_keys_Map_set)
  have "list_all (\<lambda>(k, x). setting_id x = k) (Map_set (setting_id ex) ?r (hotelSettings s))"
    using wf(2) by (rule list_all_Map_set) simp
  then show ?thesis
    using Some found keys wf ex
    by (simp add: updateHotelSetting_def getHotelSetting_def Map_get_Map_set settings_wf_def
        Let_def)
qed

theorem updateHotelSetting_upsert_witness:
  "let s0 = example_store;
       s1 = snd (updateHotelSetting ''hotel_name'' (Some (JString ''Harbour'')) 1 ''s1'' s0);
       r = fst (updateHotelSetting ''hotel_name'' (Some (JString ''Vault'')) 2 ''s2'' s1);
       s2 = snd (updateHotelSetting ''hotel_name'' (Some (JString ''Vault'')) 2 ''s2'' s1)
   in settings_wf s0 \<and> ''s1'' \<notin> set (Map_keys (hotelSettings s0))
      \<and> getHotelSetting ''hotel_name'' s0 = None
      \<and> Map_keys (hotelSettings s1) = [''s1'']
      \<and> settings_wf s1 \<and> ''s2'' \<notin> set (Map_keys (hotelSettings s1))
      \<and> setting_id r = ''s1'' \<and> setting_key r = ''hotel_name''
      \<and> setting_value r = Some (JString ''Vault'') \<and> updatedAt r = Some (Date 2)
      \<and> Map_keys (hotelSettings s2) = [''s1'']
      \<and> getHotelSetting ''hotel_name'' s2 = Some r"
proof -
  define s1 where
    "s1 = snd (updateHotelSetting ''hotel_name'' (Some (JString ''Harbour'')) 1 ''s1'' example_store)"
  have h0: "settings_wf example_store" "''s1'' \<notin> set (Map_keys (hotelSettings example_store))"
    and none: "getHotelSetting ''hotel_name'' example_store = None"
    by (simp_all add: settings_wf_def example_defs Map_keys_def getHotelSetting_def Map_values_def)
  from updateHotelSetting_upsert [OF h0, of "''hotel_name''" "Some (JString ''Harbour'')" 1] none
  have s1: "settings_wf s1" "Map_keys (hotelSettings s1) = [''s1'']"
    by (auto simp: s1_def h0 example_defs Map_keys_def split: prod.splits)
  then have h1: "''s2'' \<notin> set (Map_keys (hotelSettings s1))"
    by simp
  have some: "map_option setting_id (getHotelSetting ''hotel_name'' s1) = Some ''s1''"
    by (simp add: s1_def updateHotelSetting_def getHotelSetting_def Map_values_def example_defs)
  from updateHotelSetting_upsert [OF s1(1) h1, of "''hotel_name''" "Some (JString ''Vault'')" 2] some
  show ?thesis
    unfolding Let_def s1_def [symmetric]
    using h0 none s1 h1 by (auto split: prod.splits option.splits)
qed

subsection \<open>Identifiers\<close>

text \<open>
  C7, as the source has it. A partial that has an \<^verbatim>\<open>id\<close> property overwrites the id of
  the entity: the room stored under \<open>r1\<close> is returned, and stored under \<open>r1\<close>, with the
  id \<open>x\<close>.
\<close>

theorem id_overwritten_by_update:
  "map_option room_id (getRoom ''r1'' example_store) = Some ''r1''
   \<and> map_sum id room_id
        (fst (updateRoom ''r1'' (empty_Partial_Room\<lparr>p_room_id := Some ''x''\<rparr>) example_store))
       = Inr ''x''
   \<and> map_option room_id
        (getRoom ''r1''
          (snd (updateRoom ''r1'' (empty_Partial_Room\<lparr>p_room_id := Some ''x''\<rparr>) example_store)))
       = Some ''x''"
  by (simp add: example_defs updateRoom_def spread_Room_def override_def empty_Partial_Room_def)

lemma updateRoom_id:
  assumes "ids_wf s" "p_room_id P = None" "getRoom i s = Some E"
  shows "fst (updateRoom i P s) = Inr (spread_Room E P)" "room_id (spread_Room E P) = i"
proof -
  from assms(1,3) have "room_id E = i"
    using Map_get_list_all [of "\<lambda>(k, room). room_id room = k" "rooms s" i E]
    by (simp add: ids_wf_def getRoom_def)
  with assms(2) show "room_id (spread_Room E P) = i"
    by (simp add: spread_Room_def override_def)
  from assms(3) show "fst (updateRoom i P s) = Inr (spread_Room E P)"
    by (simp add: updateRoom_def getRoom_def Let_def)
qed

lemma updateBooking_id:
  assumes "ids_wf s" "p_booking_id Q = None" "getBooking i s = Some B"
  shows "fst (updateBooking i Q s) = Inr (spread_Booking B Q)" "booking_id (spread_Booking B Q) = i"
proof -
  from assms(1,3) have "booking_id B = i"
    using Map_get_list_all [of "\<lambda>(k, booking). booking_id booking = k" "bookings s" i B]
    by (simp add: ids_wf_def getBooking_def)
  with assms(2) show "booking_id (spread_Booking B Q) = i"
    by (simp add: spread_Booking_def override_def)
  from assms(3) show "fst (updateBooking i Q s) = Inr (spread_Booking B Q)"
    by (simp add: updateBooking_def getBooking_def Let_def)
qed

lemma perform_ids_wf:
  assumes "ids_wf s" "keeps_ids c s"
  shows "ids_wf (perform c s)"
proof (cases c)
  case (CreateRoom uuid ins)
  with assms show ?thesis
    by (simp add: ids_wf_def createRoom_def Let_def list_all_Map_set)
next
  case (UpdateRoom i P)
  show ?thesis
  proof (cases "getRoom i s")
    case None
    with UpdateRoom assms show ?thesis by (simp add: updateRoom_def getRoom_def)
  next
    case (Some E)
    with UpdateRoom assms updateRoom_id(2) [of s P i E] show ?thesis
      by (simp add: updateRoom_def getRoom_def Let_def ids_wf_def list_all_Map_set)
  qed
next
  case (UpdateRoomStatus i st)
  let ?P = "empty_Partial_Room\<lparr>p_room_status := Some (Some st)\<rparr>"
  have P: "p_room_id ?P = None" by (simp add: empty_Partial_Room_def)
  show ?thesis
  proof (cases "getRoom i s")
    case None
    with UpdateRoomStatus assms show ?thesis
      by (simp add: updateRoomStatus_def updateRoom_def getRoom_def)
  next
    case (Some E)
    with UpdateRoomStatus assms updateRoom_id(2) [OF assms(1) P Some] show ?thesis
      by (simp add: updateRoomStatus_def updateRoom_def getRoom_def Let_def ids_wf_def
          list_all_Map_set)
  qed
next
  case (CreateBooking uuid now ins)
  with assms show ?thesis
    by (simp add: ids_wf_def createBooking_def Let_def list_all_Map_set)
next
  case (UpdateBooking i Q)
  show ?thesis
  proof (cases "getBooking i s")
    case None
    with UpdateBooking assms show ?thesis by (simp add: updateBooking_def getBooking_def)
  next
    case (Some B)
    with UpdateBooking assms updateBooking_id(2) [of s Q i B] show ?thesis
      by (simp add: updateBooking_def getBooking_def Let_def ids_wf_def list_all_Map_set)
  qed
qed

lemma perform_keeps_rooms:
  assumes "keeps_ids c s" "getRoom i s \<noteq> None"
  shows "getRoom i (perform c s) \<noteq> None"
  using assms
  by (cases c)
    (auto simp: getRoom_def createRoom_def updateRoom_def updateRoomStatus_def createBooking_def
      updateBooking_def Map_get_Map_set Let_def split: option.splits)

lemma perform_keeps_bookings:
  assumes "keeps_ids c s" "getBooking i s \<noteq> None"
  shows "getBooking i (perform c s) \<noteq> None"
  using assms
  by (cases c)
    (auto simp: getBooking_def createRoom_def updateRoom_def updateRoomStatus_def
      createBooking_def updateBooking_def Map_get_Map_set Let_def split: option.splits)

lemma run_invariant:
  assumes "ids_wf s" "all_keep_ids cs s"
  shows "ids_wf (run cs s)
    \<and> (\<forall>i. getRoom i s \<noteq> None \<longrightarrow> getRoom i (run cs s) \<noteq> None)
    \<and> (\<forall>i. getBooking i s \<noteq> None \<longrightarrow> getBooking i (run cs s) \<noteq> None)"
  using assms
proof (induction cs arbitrary: s)
  case Nil
  then show ?case by simp
next
  case (Cons c cs)
  then have wf: "ids_wf (perform c s)" and rest: "all_keep_ids cs (perform c s)"
    by (simp_all add: perform_ids_wf)
  from Cons.prems have k: "keeps_ids c s" by simp
  have "getRoom i (run cs (perform c s)) \<noteq> None" if "getRoom i s \<noteq> None" for i
    using Cons.IH [OF wf rest] perform_keeps_rooms [OF k that] by blast
  moreover
  have "getBooking i (run cs (perform c s)) \<noteq> None" if "getBooking i s \<noteq> None" for i
    using Cons.IH [OF wf rest] perform_keeps_bookings [OF k that] by blast
  ultimately show ?case
    using Cons.IH [OF wf rest] by simp
qed

lemma ids_wf_room_id: "ids_wf s \<Longrightarrow> getRoom i s = Some E \<Longrightarrow> room_id E = i"
  using Map_get_list_all [of "\<lambda>(k, room). room_id room = k" "rooms s" i E]
  by (simp add: ids_wf_def getRoom_def)

lemma ids_wf_booking_id: "ids_wf s \<Longrightarrow> getBooking i s = Some B \<Longrightarrow> booking_id B = i"
  using Map_get_list_all [of "\<lambda>(k, booking). booking_id booking = k" "bookings s" i B]
  by (simp add: ids_wf_def getBooking_def)

lemma ids_wf_example_store: "ids_wf example_store"
  by (simp add: ids_wf_def example_defs)

text \<open>
  C7, amended. In a store that holds every room and booking under its own id, after any
  sequence of creations and updates in which no partial has an \<^verbatim>\<open>id\<close> property and
  every generated id is new to its collection: the store still holds every entity under
  its own id; every id of the initial store still names an entity carrying that id; a
  further update without an \<^verbatim>\<open>id\<close> property returns and stores an entity carrying the
  id it was called with; and a further creation with a new id leaves every stored entity
  as it is.
\<close>

theorem ids_stable_without_id_property:
  assumes "ids_wf s" and "all_keep_ids cs s"
  shows "ids_wf (run cs s)
    \<and> (\<forall>i. getRoom i s \<noteq> None \<longrightarrow> map_option room_id (getRoom i (run cs s)) = Some i)
    \<and> (\<forall>i. getBooking i s \<noteq> None \<longrightarrow>
          map_option booking_id (getBooking i (run cs s)) = Some i)
    \<and> (\<forall>i P. p_room_id P = None \<and> getRoom i (run cs s) \<noteq> None \<longrightarrow>
          (case updateRoom i P (run cs s) of
             (Inr E', s') \<Rightarrow> room_id E' = i \<and> map_option room_id (getRoom i s') = Some i
           | (Inl e, s') \<Rightarrow> False))
    \<and> (\<forall>i Q. p_booking_id Q = None \<and> getBooking i (run cs s) \<noteq> None \<longrightarrow>
          (case updateBooking i Q (run cs s) of
             (Inr B', s') \<Rightarrow> booking_id B' = i \<and> map_option booking_id (getBooking i s') = Some i
           | (Inl e, s') \<Rightarrow> False))
    \<and> (\<forall>uuid insertRoom i.
          uuid \<notin> set (Map_keys (rooms (run cs s))) \<and> getRoom i (run cs s) \<noteq> None \<longrightarrow>
          getRoom i (snd (createRoom uuid insertRoom (run cs s))) = getRoom i (run cs s))
    \<and> (\<forall>uuid now insertBooking i.
          uuid \<notin> set (Map_keys (bookings (run cs s))) \<and> getBooking i (run cs s) \<noteq> None \<longrightarrow>
          getBooking i (snd (createBooking uuid now insertBooking (run cs s)))
            = getBooking i (run cs s))"
proof -
  let ?s = "run cs s"
  from run_invariant [OF assms] have wf: "ids_wf ?s"
    and r: "\<And>i. getRoom i s \<noteq> None \<Longrightarrow> getRoom i ?s \<noteq> None"
    and b: "\<And>i. getBooking i s \<noteq> None \<Longrightarrow> getBooking i ?s \<noteq> None"
    by blast+
  have 1: "map_option room_id (getRoom i ?s) = Some i" if "getRoom i s \<noteq> None" for i
    using r [OF that] ids_wf_room_id [OF wf] by auto
  have 2: "map_option booking_id (getBooking i ?s) = Some i" if "getBooking i s \<noteq> None" for i
    using b [OF that] ids_wf_booking_id [OF wf] by auto
  have 3: "case updateRoom i P ?s of
             (Inr E', s') \<Rightarrow> room_id E' = i \<and> map_option room_id (getRoom i s') = Some i
           | (Inl e, s') \<Rightarrow> False"
    if "p_room_id P = None" "getRoom i ?s \<noteq> None" for i P
  proof -
    from that(2) obtain E where E: "getRoom i ?s = Some E" by auto
    from updateRoom_id [OF wf that(1) E] E show ?thesis
      by (simp add: updateRoom_def getRoom_def Let_def Map_get_Map_set)
  qed
  have 4: "case updateBooking i Q ?s of
             (Inr B', s') \<Rightarrow> booking_id B' = i \<and> map_option booking_id (getBooking i s') = Some i
           | (Inl e, s') \<Rightarrow> False"
    if "p_booking_id Q = None" "getBooking i ?s \<noteq> None" for i Q
  proof -
    from that(2) obtain B where B: "getBooking i ?s = Some B" by auto
    from updateBooking_id [OF wf that(1) B] B show ?thesis
      by (simp add: updateBooking_def getBooking_def Let_def Map_get_Map_set)
  qed
  have 5: "getRoom i (snd (createRoom uuid insertRoom ?s)) = getRoom i ?s"
    if "uuid \<notin> set (Map_keys (rooms ?s))" "getRoom i ?s \<noteq> None" for uuid insertRoom i
    using that by (auto simp: createRoom_def getRoom_def Let_def Map_get_Map_set Map_get_None_iff)
  have 6: "getBooking i (snd (createBooking uuid now insertBooking ?s)) = getBooking i ?s"
    if "uuid \<notin> set (Map_keys (bookings ?s))" "getBooking i ?s \<noteq> None"
    for uuid now insertBooking i
    using that
    by (auto simp: createBooking_def getBooking_def Let_def Map_get_Map_set Map_get_None_iff)
  show ?thesis
    by (intro conjI allI impI; (elim conjE)?) (fact wf | rule 1 2 3 4 5 6, assumption+)+
qed

theorem ids_stable_without_id_property_witness:
  "let cs = [ UpdateRoomStatus ''r1'' ''occupied'',
              CreateRoom ''r6''
                \<lparr> ins_number = ''601'', ins_room_type = ''Suite'', ins_room_status = None,
                  ins_room_floor = 6, ins_maxOccupancy = 4, ins_basePrice = ''600.00'',
                  ins_amenities = None, ins_room_notes = None \<rparr>,
              UpdateRoom ''r2'' (empty_Partial_Room\<lparr>p_number := Some ''102A''\<rparr>),
              CreateBooking ''b1'' 5 (example_InsertBooking (Date 10) (Date 30) ''100.00''),
              UpdateRoom ''r9'' empty_Partial_Room ];
       s = run cs example_store
   in ids_wf example_store \<and> all_keep_ids cs example_store \<and> ids_wf s
      \<and> map_option room_id (getRoom ''r1'' s) = Some ''r1''
      \<and> map_option room_status (getRoom ''r1'' s) = Some (Some ''occupied'')
      \<and> map_option room_id (getRoom ''r2'' s) = Some ''r2''
      \<and> map_option number (getRoom ''r2'' s) = Some ''102A''
      \<and> map_option room_id (getRoom ''r6'' s) = Some ''r6''
      \<and> map_option booking_id (getBooking ''b1'' s) = Some ''b1''"
proof -
  define cs where "cs = [ UpdateRoomStatus ''r1'' ''occupied'',
              CreateRoom ''r6''
                \<lparr> ins_number = ''601'', ins_room_type = ''Suite'', ins_room_status = None,
                  ins_room_floor = 6, ins_maxOccupancy = 4, ins_basePrice = ''600.00'',
                  ins_amenities = None, ins_room_notes = None \<rparr>,
              UpdateRoom ''r2'' (empty_Partial_Room\<lparr>p_number := Some ''102A''\<rparr>),
              CreateBooking ''b1'' 5 (example_InsertBooking (Date 10) (Date 30) ''100.00''),
              UpdateRoom ''r9'' empty_Partial_Room ]"
  have keys: "Map_keys (rooms example_store) = [''r1'', ''r2'', ''r3'', ''r4'', ''r5'']"
    "Map_keys (bookings example_store) = []"
    by (simp_all add: example_defs Map_keys_def)
  have h2: "all_keep_ids cs example_store"
    by (simp add: cs_def keys updateRoomStatus_def updateRoom_def createRoom_def Let_def
        Map_keys_Map_set Map_get_None_iff empty_Partial_Room_def split: option.splits)
  have ex: "getRoom ''r1'' example_store \<noteq> None" "getRoom ''r2'' example_store \<noteq> None"
    by (simp_all add: Map_get_None_iff keys getRoom_def)
  note inst = ids_stable_without_id_property [OF ids_wf_example_store h2]
  have more: "map_option room_status (getRoom ''r1'' (run cs example_store)) = Some (Some ''occupied'')"
    "map_option number (getRoom ''r2'' (run cs example_store)) = Some ''102A''"
    "map_option room_id (getRoom ''r6'' (run cs example_store)) = Some ''r6''"
    "map_option booking_id (getBooking ''b1'' (run cs example_store)) = Some ''b1''"
    by (simp_all add: cs_def example_defs updateRoomStatus_def updateRoom_def createRoom_def
        spread_Room_def override_def empty_Partial_Room_def)
  show ?thesis
    unfolding Let_def cs_def [symmetric]
    using inst ex ids_wf_example_store h2 more by simp
qed

subsection \<open>Today's arrivals\<close>

text \<open>
  C6. \<^verbatim>\<open>getTodaysArrivals\<close> returns, in the order of the store, exactly the bookings
  whose check-in is at or after \<open>today\<close>, the start of the local day, and before
  \<open>tomorrow\<close>, one local day later. When the two are valid dates with
  \<open>today < tomorrow\<close>, a stored booking that checks in at \<open>today\<close> is returned, and one
  that checks in a second before \<open>today\<close>, or at \<open>tomorrow\<close>, is not. In a time zone
  with a constant offset, \<open>today\<close> is the latest local midnight not after the time of the
  call and \<open>tomorrow\<close> is 24 hours later.
\<close>

theorem getTodaysArrivals_half_open:
  "getTodaysArrivals now tza s =
     filter (\<lambda>b. date_ge (checkIn b) (setHours0 tza (Date now))
                 \<and> date_lt (checkIn b) (setDate_next tza (setHours0 tza (Date now))))
       (getBookings s)
   \<and> (setHours0 tza (Date now) = Date t0 \<and> setDate_next tza (Date t0) = Date t1 \<and> t0 < t1
        \<and> b \<in> set (getBookings s) \<longrightarrow>
          (checkIn b = Date t0 \<longrightarrow> b \<in> set (getTodaysArrivals now tza s))
        \<and> (checkIn b = Date (t0 - 1000) \<longrightarrow> b \<notin> set (getTodaysArrivals now tza s))
        \<and> (checkIn b = Date t1 \<longrightarrow> b \<notin> set (getTodaysArrivals now tza s)))
   \<and> (\<bar>now\<bar> \<le> 8640000000000000 - 2 * msPerDay \<and> \<bar>off\<bar> \<le> msPerDay \<longrightarrow>
          setHours0 (\<lambda>t isUTC. off) (Date now) = Date (now - (now + off) mod msPerDay)
        \<and> setDate_next (\<lambda>t isUTC. off) (Date (now - (now + off) mod msPerDay))
            = Date (now - (now + off) mod msPerDay + msPerDay))"
proof -
  have query: "getTodaysArrivals now tza s =
     filter (\<lambda>b. date_ge (checkIn b) (setHours0 tza (Date now))
                 \<and> date_lt (checkIn b) (setDate_next tza (setHours0 tza (Date now))))
       (getBookings s)"
    by (simp add: getTodaysArrivals_def getBookings_def Let_def)
  have boundary: "setHours0 tza (Date now) = Date t0 \<and> setDate_next tza (Date t0) = Date t1
        \<and> t0 < t1 \<and> b \<in> set (getBookings s) \<longrightarrow>
          (checkIn b = Date t0 \<longrightarrow> b \<in> set (getTodaysArrivals now tza s))
        \<and> (checkIn b = Date (t0 - 1000) \<longrightarrow> b \<notin> set (getTodaysArrivals now tza s))
        \<and> (checkIn b = Date t1 \<longrightarrow> b \<notin> set (getTodaysArrivals now tza s))"
    by (simp add: query)
  have fixed: "setHours0 (\<lambda>t isUTC. off) (Date now) = Date (now - (now + off) mod msPerDay)
        \<and> setDate_next (\<lambda>t isUTC. off) (Date (now - (now + off) mod msPerDay))
            = Date (now - (now + off) mod msPerDay + msPerDay)"
    if a: "\<bar>now\<bar> \<le> 8640000000000000 - 2 * msPerDay \<and> \<bar>off\<bar> \<le> msPerDay"
  proof -
    define r where "r = (now + off) mod 86400000"
    have m: "0 \<le> r" "r < 86400000"
      by (simp_all add: r_def)
    have d: "(now + off) div 86400000 * 86400000 = now + off - r"
      by (simp add: r_def minus_mod_eq_div_mult)
    from a have a': "\<bar>now\<bar> \<le> 8639999827200000" "\<bar>off\<bar> \<le> 86400000"
      by (simp_all add: msPerDay_def)
    have c: "\<not> \<bar>now - r\<bar> > 8640000000000000" "\<not> \<bar>now - r + 86400000\<bar> > 8640000000000000"
      using a' m by linarith+
    have "setHours0 (\<lambda>t isUTC. off) (Date now) = Date (now - (now + off) mod msPerDay)"
      using c by (simp add: LocalTime_def UTC_def Day_def TimeClip_def msPerDay_def d)
        (simp add: r_def)
    moreover
    have "setDate_next (\<lambda>t isUTC. off) (Date (now - (now + off) mod msPerDay))
            = Date (now - (now + off) mod msPerDay + msPerDay)"
      using c by (simp add: LocalTime_def UTC_def TimeClip_def msPerDay_def r_def)
    ultimately show ?thesis by simp
  qed
  from query boundary fixed show ?thesis by blast
qed

theorem getTodaysArrivals_half_open_witness:
  "let tza = (\<lambda>t isUTC. 36000000);
       now = 1730510000000;
       today = 1730469600000;
       tomorrow = 1730556000000;
       s1 = snd (createBooking ''b1'' now (example_InsertBooking (Date today) (Date tomorrow) ''100.00'')
                  example_store);
       s2 = snd (createBooking ''b2'' now
                  (example_InsertBooking (Date (today - 1000)) (Date tomorrow) ''100.00'') s1);
       s = snd (createBooking ''b3'' now
                  (example_InsertBooking (Date tomorrow) (Date (tomorrow + 1000)) ''100.00'') s2)
   in \<bar>now\<bar> \<le> 8640000000000000 - 2 * msPerDay \<and> \<bar>36000000 :: int\<bar> \<le> msPerDay
      \<and> setHours0 tza (Date now) = Date today \<and> setDate_next tza (Date today) = Date tomorrow
      \<and> today < tomorrow
      \<and> map checkIn (getBookings s) = [Date today, Date (today - 1000), Date tomorrow]
      \<and> map booking_id (getTodaysArrivals now tza s) = [''b1'']"
proof -
  define tza :: "int \<Rightarrow> bool \<Rightarrow> int" where "tza = (\<lambda>t isUTC. 36000000)"
  define s where "s = snd (createBooking ''b3'' 1730510000000
      (example_InsertBooking (Date 1730556000000) (Date (1730556000000 + 1000)) ''100.00'')
      (snd (createBooking ''b2'' 1730510000000
        (example_InsertBooking (Date (1730469600000 - 1000)) (Date 1730556000000) ''100.00'')
        (snd (createBooking ''b1'' 1730510000000
          (example_InsertBooking (Date 1730469600000) (Date 1730556000000) ''100.00'')
          example_store)))))"
  have h: "\<bar>1730510000000 :: int\<bar> \<le> 8640000000000000 - 2 * msPerDay \<and> \<bar>36000000 :: int\<bar> \<le> msPerDay"
    by (simp add: msPerDay_def)
  note inst = getTodaysArrivals_half_open [of 1730510000000 tza s 0 0 undefined 36000000]
  from inst [THEN conjunct2, THEN conjunct2] h
  have days: "setHours0 tza (Date 1730510000000) = Date 1730469600000"
    "setDate_next tza (Date 1730469600000) = Date 1730556000000"
    by (simp_all add: tza_def msPerDay_def)
  have bs: "map checkIn (getBookings s)
      = [Date 1730469600000, Date (1730469600000 - 1000), Date 1730556000000]"
    "map booking_id (getBookings s) = [''b1'', ''b2'', ''b3'']"
    by (simp_all add: s_def getBookings_def Map_values_def example_defs)
  have "map booking_id (getTodaysArrivals 1730510000000 tza s) = [''b1'']"
    unfolding inst [THEN conjunct1] days
    by (simp add: s_def getBookings_def Map_values_def example_defs)
  with h days bs show ?thesis
    unfolding Let_def tza_def [symmetric] s_def [symmetric] by simp
qed

subsection \<open>Rounding to binary64\<close>

lemma pow2_powi: "pow2 e = 2 powi e"
  by (simp add: pow2_def power_int_def power_one_over inverse_eq_divide)

lemma pow2_pos: "0 < pow2 e"
  by (simp add: pow2_powi)

lemma pow2_mono: "e \<le> e' \<Longrightarrow> pow2 e \<le> pow2 e'"
  by (simp add: pow2_powi power_int_increasing)

lemma pow2_less_imp: "pow2 e < pow2 e' \<Longrightarrow> e < e'"
  using pow2_mono [of e' e] by (cases "e < e'") auto

lemma pow2_Suc: "pow2 (e + 1) = 2 * pow2 e"
  by (simp add: pow2_powi power_int_add)

lemma ilog2_lower:
  assumes "0 < q"
  shows "pow2 (ilog2 q) \<le> q"
proof (cases "1 \<le> q")
  case True
  then have pos: "0 < \<lfloor>q\<rfloor>" by simp
  then have "1 \<le> bitlen \<lfloor>q\<rfloor>"
    by (simp add: bitlen_alt_def)
  then have "pow2 (ilog2 q) = of_int (2 ^ nat (bitlen \<lfloor>q\<rfloor> - 1))"
    using True by (simp add: ilog2_def pow2_def)
  also have "\<dots> \<le> of_int \<lfloor>q\<rfloor>"
    using bitlen_bounds [OF pos] by (simp only: of_int_le_iff)
  also have "\<dots> \<le> q" by simp
  finally show ?thesis .
next
  case False
  define N where "N = \<lceil>1 / q\<rceil>"
  define j where "j = bitlen (N - 1)"
  from False assms have "1 < 1 / q" by simp
  then have N: "2 \<le> N" unfolding N_def by linarith
  then have pos: "0 < N - 1" by simp
  then have j: "1 \<le> j" by (simp add: j_def bitlen_alt_def)
  from bitlen_bounds [OF pos] have "N - 1 < 2 ^ nat j" by (simp add: j_def)
  then have "N \<le> 2 ^ nat j" by simp
  then have "(of_int N :: rat) \<le> 2 ^ nat j"
    using of_int_le_iff [of N "2 ^ nat j", where ?'a = rat] by simp
  moreover have "1 / q \<le> of_int N" by (simp add: N_def)
  ultimately have "1 / q \<le> 2 ^ nat j" by linarith
  then have "1 / 2 ^ nat j \<le> q"
    using assms by (simp add: field_simps)
  moreover have "pow2 (ilog2 q) = 1 / 2 ^ nat j"
    using False j by (simp add: ilog2_def pow2_def N_def j_def)
  ultimately show ?thesis by simp
qed

lemma roundTiesToEven_error: "\<bar>of_int (roundTiesToEven x) - x\<bar> \<le> 1 / 2"
proof -
  have "0 \<le> x - of_int \<lfloor>x\<rfloor>" "x - of_int \<lfloor>x\<rfloor> < 1" by linarith+
  then show ?thesis
    by (auto simp: roundTiesToEven_def Let_def)
qed

lemma roundTiesToEven_nonneg: "0 \<le> x \<Longrightarrow> 0 \<le> roundTiesToEven x"
  by (auto simp: roundTiesToEven_def Let_def)

lemma binary64_abs_error:
  assumes "0 \<le> q" "q < pow2 k" "0 \<le> k" "k \<le> 1023"
  shows "\<exists>v. binary64 q = Finite v \<and> 0 \<le> v \<and> \<bar>v - q\<bar> \<le> pow2 (k - 54)"
proof (cases "q = 0")
  case True
  then show ?thesis
    using pow2_pos [of "k - 54"] by (simp add: binary64_def)
next
  case False
  with assms have q: "0 < q" by simp
  define e where "e = max (ilog2 q) (- 1022)"
  define ulp where "ulp = pow2 (e - 52)"
  define m where "m = roundTiesToEven (q / ulp)"
  define v where "v = of_int m * ulp"
  have ulp: "0 < ulp" by (simp add: ulp_def pow2_pos)
  from ilog2_lower [OF q] assms(2) have "pow2 (ilog2 q) < pow2 k" by simp
  then have "ilog2 q < k" by (rule pow2_less_imp)
  with assms(3) have e: "e \<le> k - 1" by (simp add: e_def)
  have m: "0 \<le> m"
    unfolding m_def using q ulp by (intro roundTiesToEven_nonneg) simp
  then have v: "0 \<le> v" using ulp by (simp add: v_def)
  have "v - q = (of_int m - q / ulp) * ulp"
    using ulp by (simp add: v_def field_simps)
  then have "\<bar>v - q\<bar> = \<bar>of_int m - q / ulp\<bar> * ulp"
    using ulp by (simp add: abs_mult)
  also have "\<dots> \<le> 1 / 2 * ulp"
    using roundTiesToEven_error [of "q / ulp"] ulp
    by (intro mult_right_mono) (simp_all add: m_def)
  also have "\<dots> = pow2 (e - 53)"
    using pow2_Suc [of "e - 53"] by (simp add: ulp_def)
  also have "\<dots> \<le> pow2 (k - 54)"
    using e by (intro pow2_mono) simp
  finally have err: "\<bar>v - q\<bar> \<le> pow2 (k - 54)" .
  have "pow2 (k - 54) \<le> pow2 k" by (intro pow2_mono) simp
  with err assms(2) have "v < 2 * pow2 k" by linarith
  also have "\<dots> = pow2 (k + 1)" by (simp add: pow2_Suc)
  also have "\<dots> \<le> pow2 1024" using assms(4) by (intro pow2_mono) simp
  finally have "\<not> pow2 1024 \<le> v" by simp
  then have "binary64 q = Finite v"
    using q by (simp add: binary64_def Let_def e_def [symmetric] ulp_def [symmetric]
        m_def [symmetric] v_def [symmetric])
  with v err show ?thesis by blast
qed

text \<open>Rules that evaluate the number model on numerals.\<close>

lemma floor_fraction [simp]: "\<lfloor>numeral a / numeral b :: rat\<rfloor> = numeral a div numeral b"
  using floor_divide_of_int_eq [of "numeral a" "numeral b", where ?'a = rat] by simp

lemma ceiling_fraction [simp]: "\<lceil>numeral a / numeral b :: rat\<rceil> = - (- numeral a div numeral b)"
  using floor_divide_of_int_eq [of "- numeral a" "numeral b", where ?'a = rat]
  by (simp add: ceiling_def)

lemmas binary64_eval = binary64_def ilog2_def compute_bitlen pow2_def roundTiesToEven_def Let_def

lemmas parseFloat_eval =
  parseFloat_def StrDecimalLiteral_def StrWhiteSpaceChar_def DecimalDigit_def DecimalDigits_MV_def
  pow10_def

subsection \<open>Occupancy rate\<close>

lemma forty_rooms_status:
  "map room_status (getRooms forty_rooms) =
     map Some
      [''available'', ''occupied'', ''pending'', ''available'', ''available'',
       ''occupied'', ''occupied'', ''occupied'', ''occupied'', ''occupied'', ''occupied'',
       ''occupied'', ''occupied'', ''occupied'', ''occupied'', ''occupied'', ''occupied'',
       ''occupied'', ''occupied'', ''occupied'', ''occupied'', ''occupied'', ''occupied'',
       ''occupied'', ''occupied'', ''occupied'', ''occupied'',
       ''available'', ''available'', ''available'', ''available'', ''available'',
       ''available'', ''available'', ''available'', ''available'', ''available'',
       ''available'', ''available'', ''available'']"
proof -
  have upt: "[0..<35] = [0, 1, 2, 3, 4, 5, 6, 7, 8, 9, 10, 11, 12, 13, 14, 15, 16, 17, 18, 19,
      20, 21, 22, 23, 24, 25, 26, 27, 28, 29, 30, 31, 32, 33, 34]"
    by (simp add: upt_rec)
  show ?thesis
    by (simp add: forty_rooms_def upt example_InsertRoom_def createRoom_def getRooms_def
      Map_values_def example_defs)
qed

lemma forty_rooms_counts:
  "length (getRooms forty_rooms) = 40"
  "length (filter (\<lambda>room. room_status room = Some ''occupied'') (getRooms forty_rooms)) = 23"
proof -
  have "length (map room_status (getRooms forty_rooms)) = 40"
    unfolding forty_rooms_status by simp
  then show "length (getRooms forty_rooms) = 40" by simp
  have "length (filter (\<lambda>room. room_status room = Some ''occupied'') (getRooms forty_rooms))
      = length (filter (\<lambda>st. st = Some ''occupied'') (map room_status (getRooms forty_rooms)))"
    by (simp add: filter_map comp_def)
  also have "\<dots> = 23"
    unfolding forty_rooms_status by simp
  finally show "length (filter (\<lambda>room. room_status room = Some ''occupied'')
      (getRooms forty_rooms)) = 23" .
qed

lemma four_rooms_counts:
  "length (getRooms four_rooms) = 4"
  "length (filter (\<lambda>room. room_status room = Some ''occupied'') (getRooms four_rooms)) = 1"
  by (simp_all add: four_rooms_def example_InsertRoom_def createRoom_def getRooms_def
      Map_values_def empty_MemStorage_def Let_def)

lemma occupancy_23_40:
  "Math_round (js_mul (js_div (Number_of_nat 23) (Number_of_nat 40)) (Finite 100)) = Finite 57"
  by (simp add: Number_of_nat_def binary64_eval)

lemma occupancy_1_4:
  "Math_round (js_mul (js_div (Number_of_nat 1) (Number_of_nat 4)) (Finite 100)) = Finite 25"
  by (simp add: Number_of_nat_def binary64_eval)

lemma occupancy_0_0:
  "Math_round (js_mul (js_div (Number_of_nat 0) (Number_of_nat 0)) (Finite 100)) = NaN"
  by (simp add: Number_of_nat_def binary64_eval)

lemma spec_23_40: "spec_occupancyRate 23 40 = 58"
  by (simp add: spec_occupancyRate_def round_def)

lemma dashboard_occupancyRate:
  "occupancyRate (dashboard_metrics now' now tza s) =
     Math_round
       (js_mul
         (js_div
           (Number_of_nat (length (filter (\<lambda>room. room_status room = Some ''occupied'') (getRooms s))))
           (Number_of_nat (length (getRooms s))))
         (Finite 100))"
  by (simp add: dashboard_metrics_def Let_def)

text \<open>
  C1, as the source has it. The handler computes
  \<^verbatim>\<open>Math.round((occupiedRooms / totalRooms) * 100)\<close>: the quotient is rounded to
  binary64 before it is multiplied by 100. With 40 rooms of which 23 are occupied the
  product is just below 57.5 and the rate is 57, where \<open>round(100 * 23 / 40)\<close> is 58.
  With no room at all the quotient is \<^verbatim>\<open>0 / 0\<close> and the rate is \<^verbatim>\<open>NaN\<close>: the handler
  has no guard for it. With four rooms of which one is occupied the rate is 25.
\<close>

theorem occupancyRate_23_of_40:
  "totalRooms (dashboard_metrics now' now tza forty_rooms) = 40
   \<and> occupiedRooms (dashboard_metrics now' now tza forty_rooms) = 23
   \<and> occupancyRate (dashboard_metrics now' now tza forty_rooms) = Finite 57
   \<and> spec_occupancyRate 23 40 = 58
   \<and> occupancyRate (dashboard_metrics now' now tza empty_MemStorage) = NaN
   \<and> occupancyRate (dashboard_metrics now' now tza four_rooms) = Finite 25"
proof -
  have "occupancyRate (dashboard_metrics now' now tza four_rooms) = Finite 25"
    unfolding dashboard_occupancyRate four_rooms_counts by (rule occupancy_1_4)
  moreover
  have "occupancyRate (dashboard_metrics now' now tza empty_MemStorage) = NaN"
    unfolding dashboard_occupancyRate
    by (simp add: getRooms_def empty_MemStorage_def Map_values_def occupancy_0_0)
  moreover have "occupancyRate (dashboard_metrics now' now tza forty_rooms) = Finite 57"
    unfolding dashboard_occupancyRate forty_rooms_counts by (rule occupancy_23_40)
  moreover have "totalRooms (dashboard_metrics now' now tza forty_rooms) = 40"
    "occupiedRooms (dashboard_metrics now' now tza forty_rooms) = 23"
    by (simp_all add: dashboard_metrics_def Let_def forty_rooms_counts)
  ultimately show ?thesis
    using spec_23_40 by simp
qed

subsection \<open>Today's revenue\<close>


lemmas time_eval =
  example_tza_def example_now_def LocalTime_def UTC_def Day_def TimeClip_def msPerDay_def

lemma two_amounts_today:
  "map totalAmount (todaysBookings example_now example_tza (getBookings two_amounts))
     = [''99.99'', ''0.01'']"
  by (simp add: two_amounts_def book_def todaysBookings_def getBookings_def Map_values_def
      time_eval example_defs)

lemma large_amount_today:
  "map totalAmount (todaysBookings example_now example_tza (getBookings large_amount))
     = [''90071992547409.93'']"
  by (simp add: large_amount_def book_def todaysBookings_def getBookings_def Map_values_def
      time_eval example_defs)

lemma literal_9999: "StrDecimalLiteral (dropWhile StrWhiteSpaceChar ''99.99'') = DecimalLiteral (9999 / 100)"
  by (simp add: parseFloat_eval)

lemma literal_001: "StrDecimalLiteral (dropWhile StrWhiteSpaceChar ''0.01'') = DecimalLiteral (1 / 100)"
  by (simp add: parseFloat_eval)

lemma literal_large:
  "StrDecimalLiteral (dropWhile StrWhiteSpaceChar ''90071992547409.93'')
     = DecimalLiteral (9007199254740993 / 100)"
  by (simp add: parseFloat_eval)

lemma fixed_2_10000: "fixed_2 10000 = ''100.00''"
  by (simp add: fixed_2_def)

lemma fixed_2_large: "fixed_2 9007199254740994 = ''90071992547409.94''"
  by (simp add: fixed_2_def)

lemma revenue_fold_map:
  "foldl (\<lambda>sum b. js_add sum (parseFloat (totalAmount b))) a bs
     = foldl (\<lambda>sum t. js_add sum (parseFloat t)) a (map totalAmount bs)"
  by (induction bs arbitrary: a) simp_all

text \<open>
  C5, as the source has it. The revenue is the binary64 sum of the parsed amounts, written
  with two decimals. One booking of 90071992547409.93 that checks in today gives the
  revenue \<open>90071992547409.94\<close>: the amount is not a binary64 value, and the nearest one
  is 90071992547409.9375.
\<close>

theorem revenue_large_amount_rounded:
  "map totalAmount (todaysBookings example_now example_tza (getBookings large_amount))
     = [''90071992547409.93'']
   \<and> StrDecimalLiteral (dropWhile StrWhiteSpaceChar ''90071992547409.93'')
       = DecimalLiteral (9007199254740993 / 100)
   \<and> revenue (dashboard_metrics example_now example_now example_tza large_amount)
       = ''90071992547409.94''"
proof -
  have "parseFloat ''90071992547409.93'' = Finite (1441151880758559 / 16)"
    unfolding parseFloat_def literal_large by (simp add: binary64_eval)
  then have "revenue (dashboard_metrics example_now example_now example_tza large_amount)
      = toFixed_2 (Finite (1441151880758559 / 16))"
    by (simp add: dashboard_metrics_def revenue_fold_map large_amount_today binary64_eval)
  also have "\<dots> = ''90071992547409.94''"
    by (simp add: fixed_2_large)
  finally show ?thesis
    using large_amount_today literal_large by simp
qed

text \<open>
  Amounts below zero behave differently. Three bookings of -0.10, -0.20 and 0.30 that check
  in today have the exact total 0.00; the binary64 sum is \<open>- 2^(-54)\<close>, and
  \<^verbatim>\<open>toFixed(2)\<close> keeps its sign: the revenue is \<^verbatim>\<open>-0.00\<close>. The exactness result below
  is therefore about amounts that are not negative.
\<close>

lemma negative_amounts_today:
  "map totalAmount (todaysBookings example_now example_tza (getBookings negative_amounts))
     = [''-0.10'', ''-0.20'', ''0.30'']"
  by (simp add: negative_amounts_def book_def todaysBookings_def getBookings_def Map_values_def
      time_eval example_defs)

lemma parseFloat_negative_amounts:
  "parseFloat ''-0.10'' = Finite (- (3602879701896397 / 36028797018963968))"
  "parseFloat ''-0.20'' = Finite (- (3602879701896397 / 18014398509481984))"
  "parseFloat ''0.30'' = Finite (5404319552844595 / 18014398509481984)"
  by (simp_all add: parseFloat_eval binary64_eval)

lemma revenue_negative_amounts:
  "revenue (dashboard_metrics example_now example_now example_tza negative_amounts) = ''-0.00''"
proof -
  have "revenue (dashboard_metrics example_now example_now example_tza negative_amounts)
      = toFixed_2 (Finite (- (1 / 18014398509481984)))"
    by (simp add: dashboard_metrics_def revenue_fold_map negative_amounts_today
        parseFloat_negative_amounts binary64_eval)
  also have "\<dots> = ''-0.00''"
    by (simp add: fixed_2_def)
  finally show ?thesis .
qed

lemma parseFloat_DecimalLiteral:
  "StrDecimalLiteral (dropWhile StrWhiteSpaceChar t) = DecimalLiteral q \<Longrightarrow> parseFloat t = binary64 q"
  by (simp add: parseFloat_def)

lemma revenue_fold:
  fixes a A :: rat and k :: nat
  assumes "\<forall>b\<in>set bs. parseFloat (totalAmount b) = binary64 (of_nat (cents b) / 100)"
    and "0 \<le> a" "0 \<le> A"
    and "\<bar>a - A\<bar> \<le> of_nat j * pow2 (int k - 53)"
    and "A + of_nat (sum_list (map cents bs)) / 100 + 1 \<le> 2 ^ k"
    and "of_nat (j + length bs) * pow2 (int k - 53) \<le> 1 / 2"
    and "k \<le> 1023"
  shows "\<exists>r. foldl (\<lambda>sum b. js_add sum (parseFloat (totalAmount b))) (Finite a) bs = Finite r
           \<and> 0 \<le> r
           \<and> \<bar>r - (A + of_nat (sum_list (map cents bs)) / 100)\<bar>
               \<le> of_nat (j + length bs) * pow2 (int k - 53)"
  using assms
proof (induction bs arbitrary: a A j)
  case Nil
  then show ?case by simp
next
  case (Cons b bs)
  define d where "d = pow2 (int k - 53)"
  define v :: rat where "v = of_nat (cents b) / 100"
  define rest :: rat where "rest = of_nat (sum_list (map cents bs)) / 100"
  have d: "0 < d" by (simp add: d_def pow2_pos)
  have half: "pow2 (int k - 54) = d / 2"
    using pow2_Suc [of "int k - 54"] by (simp add: d_def)
  have k2: "pow2 (int k) = 2 ^ k" by (simp add: pow2_def)
  have v: "0 \<le> v" and rest: "0 \<le> rest" by (simp_all add: v_def rest_def)
  from Cons.prems(5) have total: "A + v + rest + 1 \<le> 2 ^ k"
    by (simp add: v_def rest_def add_divide_distrib algebra_simps)
  from Cons.prems(6) have jd: "(of_nat j + 1 + of_nat (length bs)) * d \<le> 1 / 2"
    by (simp add: d_def algebra_simps)
  have "of_nat j * d \<le> (of_nat j + 1 + of_nat (length bs)) * d"
    using d by (intro mult_right_mono) simp_all
  with jd have jd': "of_nat j * d \<le> 1 / 2" by linarith
  have "1 * d \<le> (of_nat j + 1 + of_nat (length bs)) * d"
    using d by (intro mult_right_mono) simp_all
  with jd have d_half: "d \<le> 1 / 2" by linarith
  from total Cons.prems(3) rest have "v < pow2 (int k)" by (simp add: k2)
  from binary64_abs_error [OF v this] Cons.prems(7)
  obtain p where p: "binary64 v = Finite p" "0 \<le> p" "\<bar>p - v\<bar> \<le> d / 2"
    by (auto simp: half)
  from Cons.prems(1) p(1) [unfolded v_def]
  have pf: "parseFloat (totalAmount b) = Finite p"
    by simp
  from Cons.prems(4) have aA: "\<bar>a - A\<bar> \<le> of_nat j * d" by (simp add: d_def)
  have q0: "0 \<le> a + p" using Cons.prems(2) p by simp
  have "a + p \<le> A + v + of_nat j * d + d / 2" using aA p by linarith
  with total rest jd' d_half have "a + p < pow2 (int k)" by (simp add: k2)
  from binary64_abs_error [OF q0 this] Cons.prems(7)
  obtain a' where a': "binary64 (a + p) = Finite a'" "0 \<le> a'" "\<bar>a' - (a + p)\<bar> \<le> d / 2"
    by (auto simp: half)
  have "\<bar>a' - (A + v)\<bar> \<le> \<bar>a' - (a + p)\<bar> + \<bar>a - A\<bar> + \<bar>p - v\<bar>"
    by linarith
  also have "\<dots> \<le> d / 2 + of_nat j * d + d / 2"
    using a'(3) aA p(3) by linarith
  also have "\<dots> = of_nat (j + 1) * d"
    by (simp add: algebra_simps)
  finally have err: "\<bar>a' - (A + v)\<bar> \<le> of_nat (j + 1) * d" .
  have "\<exists>r. foldl (\<lambda>sum b. js_add sum (parseFloat (totalAmount b))) (Finite a') bs = Finite r
           \<and> 0 \<le> r
           \<and> \<bar>r - (A + v + of_nat (sum_list (map cents bs)) / 100)\<bar>
               \<le> of_nat (j + 1 + length bs) * pow2 (int k - 53)"
  proof (rule Cons.IH)
    show "\<forall>b\<in>set bs. parseFloat (totalAmount b) = binary64 (of_nat (cents b) / 100)"
      using Cons.prems(1) by simp
    show "0 \<le> a'" by (rule a')
    show "0 \<le> A + v" using Cons.prems(3) v by simp
    show "\<bar>a' - (A + v)\<bar> \<le> of_nat (j + 1) * pow2 (int k - 53)"
      using err by (simp add: d_def)
    show "A + v + of_nat (sum_list (map cents bs)) / 100 + 1 \<le> 2 ^ k"
      using total by (simp add: rest_def)
    show "of_nat (j + 1 + length bs) * pow2 (int k - 53) \<le> 1 / 2"
      using jd by (simp add: d_def algebra_simps)
    show "k \<le> 1023" by (rule Cons.prems)
  qed
  then show ?case
    by (simp add: pf a' v_def add_divide_distrib algebra_simps)
qed

text \<open>
  C5, amended. Let the amount of every booking that checks in today be a decimal literal,
  as \<^verbatim>\<open>parseFloat\<close> reads it, whose value is a whole number of cents and not negative
  (\<open>cents b\<close> is a natural number); let the exact total plus one be at most \<open>2^k\<close>, and
  let 200 times the number of these bookings times \<open>2^k\<close> be below \<open>2^53\<close>. Then the
  revenue is the exact total, written with two decimals: each rounding, of an amount or of
  a partial sum, is off by at most \<open>2^(k - 54)\<close>, so that the computed sum is within
  half a cent of the exact one.
\<close>

theorem revenue_exact_within_bounds:
  fixes cents :: "Booking \<Rightarrow> nat" and k :: nat
  assumes "\<forall>b\<in>set (todaysBookings now tza (getBookings s)).
             StrDecimalLiteral (dropWhile StrWhiteSpaceChar (totalAmount b))
               = DecimalLiteral (of_nat (cents b) / 100)"
    and "sum_list (map cents (todaysBookings now tza (getBookings s))) + 100 \<le> 100 * 2 ^ k"
    and "200 * length (todaysBookings now tza (getBookings s)) * 2 ^ k < 2 ^ 53"
  shows "revenue (dashboard_metrics now' now tza s)
           = fixed_2 (sum_list (map cents (todaysBookings now tza (getBookings s))))"
proof -
  define bs where "bs = todaysBookings now tza (getBookings s)"
  define C where "C = sum_list (map cents bs)"
  define n where "n = length bs"
  define d where "d = pow2 (int k - 53)"
  let ?sum = "foldl (\<lambda>sum b. js_add sum (parseFloat (totalAmount b))) (Finite 0) bs"
  have rev: "revenue (dashboard_metrics now' now tza s) = toFixed_2 ?sum"
    by (simp add: dashboard_metrics_def Let_def bs_def)
  show ?thesis
  proof (cases "bs = []")
    case True
    have "\<lfloor>1 / 2 :: rat\<rfloor> = 0" by linarith
    with True show ?thesis
      by (simp add: rev bs_def [symmetric])
  next
    case False
    then have n: "1 \<le> n" by (cases bs) (simp_all add: n_def)
    from assms(3) have count: "200 * n * 2 ^ k < (2::nat) ^ 53"
      by (simp add: bs_def n_def)
    have "(2::nat) ^ k \<le> 200 * n * 2 ^ k" using n by simp
    with count have pk: "(2::nat) ^ k < 2 ^ 53" by linarith
    have k: "k < 53"
      by (rule power_less_imp_less_exp [OF _ pk]) simp
    have d: "d = 2 ^ k / 2 ^ 53"
      using k by (simp add: d_def pow2_powi power_int_diff)
    from count have "of_nat (200 * n * 2 ^ k) < (of_nat (2 ^ 53) :: rat)"
      by (simp only: of_nat_less_iff)
    then have nd: "of_nat n * d < 1 / 200"
      by (simp add: d field_simps)
    from assms(2) have "of_nat (C + 100) \<le> (of_nat (100 * 2 ^ k) :: rat)"
      unfolding C_def bs_def by (simp only: of_nat_le_iff)
    then have total: "0 + of_nat C / 100 + 1 \<le> (2::rat) ^ k"
      by (simp add: field_simps)
    have parse: "\<forall>b\<in>set bs. parseFloat (totalAmount b) = binary64 (of_nat (cents b) / 100)"
      using assms(1) by (auto simp: bs_def intro: parseFloat_DecimalLiteral)
    have "\<exists>r. ?sum = Finite r \<and> 0 \<le> r
           \<and> \<bar>r - (0 + of_nat (sum_list (map cents bs)) / 100)\<bar>
               \<le> of_nat (0 + length bs) * pow2 (int k - 53)"
    proof (rule revenue_fold [OF parse])
      show "\<bar>0 - 0 :: rat\<bar> \<le> of_nat 0 * pow2 (int k - 53)" by simp
      show "0 + of_nat (sum_list (map cents bs)) / 100 + 1 \<le> (2::rat) ^ k"
        using total by (simp add: C_def)
      show "of_nat (0 + length bs) * pow2 (int k - 53) \<le> 1 / 2"
        using nd by (simp add: n_def d_def)
      show "k \<le> 1023" using k by simp
    qed simp_all
    then obtain r where r: "?sum = Finite r" "0 \<le> r" "\<bar>r - of_nat C / 100\<bar> \<le> of_nat n * d"
      by (auto simp: C_def n_def d_def)
    from r(3) nd have close: "\<bar>r - of_nat C / 100\<bar> < 1 / 200" by linarith
    have "(2::rat) ^ k \<le> 2 ^ 53"
      using k by (intro power_increasing) simp_all
    then have "(2::rat) ^ k \<le> 9007199254740992" by simp
    with close total have "r < 1000000000000000000000" by linarith
    then have "r < 10 ^ 21" by simp
    with r(2) have small: "\<not> r < 0" "\<not> 10 ^ 21 \<le> \<bar>r\<bar>" by simp_all
    have "\<lfloor>r * 100 + 1 / 2\<rfloor> = int C"
    proof (rule floor_unique)
      from close have c: "r - of_nat C / 100 < 1 / 200" "- (1 / 200) < r - of_nat C / 100"
        by linarith+
      show "of_int (int C) \<le> r * 100 + 1 / 2"
        unfolding of_int_of_nat_eq using c by linarith
      show "r * 100 + 1 / 2 < of_int (int C) + 1"
        unfolding of_int_of_nat_eq using c by linarith
    qed
    with small r(2) have "toFixed_2 ?sum = fixed_2 C"
      by (simp add: r(1))
    with rev show ?thesis
      by (simp add: C_def bs_def)
  qed
qed

theorem revenue_exact_within_bounds_witness:
  "map totalAmount (todaysBookings example_now example_tza (getBookings two_amounts))
     = [''99.99'', ''0.01'']
   \<and> StrDecimalLiteral (dropWhile StrWhiteSpaceChar ''99.99'') = DecimalLiteral (of_nat 9999 / 100)
   \<and> StrDecimalLiteral (dropWhile StrWhiteSpaceChar ''0.01'') = DecimalLiteral (of_nat 1 / 100)
   \<and> (9999 + 1 :: nat) + 100 \<le> 100 * 2 ^ 7
   \<and> (200 * 2 * 2 ^ 7 :: nat) < 2 ^ 53
   \<and> revenue (dashboard_metrics example_now example_now example_tza two_amounts) = ''100.00''"
proof -
  define cents :: "Booking \<Rightarrow> nat" where
    "cents = (\<lambda>b. if totalAmount b = ''99.99'' then 9999 else 1)"
  let ?bs = "todaysBookings example_now example_tza (getBookings two_amounts)"
  have amounts: "totalAmount b = ''99.99'' \<or> totalAmount b = ''0.01''" if "b \<in> set ?bs" for b
  proof -
    from that have "totalAmount b \<in> set (map totalAmount ?bs)" by simp
    then show ?thesis unfolding two_amounts_today by simp
  qed
  have h1: "\<forall>b\<in>set ?bs. StrDecimalLiteral (dropWhile StrWhiteSpaceChar (totalAmount b))
      = DecimalLiteral (of_nat (cents b) / 100)"
  proof
    fix b
    assume "b \<in> set ?bs"
    from amounts [OF this]
    show "StrDecimalLiteral (dropWhile StrWhiteSpaceChar (totalAmount b))
      = DecimalLiteral (of_nat (cents b) / 100)"
    proof
      assume t: "totalAmount b = ''99.99''"
      then have "cents b = 9999" by (simp add: cents_def)
      then show ?thesis unfolding t using literal_9999 by (simp only: of_nat_numeral)
    next
      assume t: "totalAmount b = ''0.01''"
      then have "cents b = 1" by (simp add: cents_def)
      then show ?thesis unfolding t using literal_001 by (simp only: of_nat_1)
    qed
  qed
  have "map cents ?bs = map (\<lambda>t. if t = ''99.99'' then 9999 else 1) (map totalAmount ?bs)"
    by (simp add: cents_def comp_def)
  then have cs: "map cents ?bs = [9999, 1]"
    unfolding two_amounts_today by simp
  have n: "length ?bs = 2"
    using arg_cong [OF two_amounts_today, of length] by simp
  have h2: "sum_list (map cents ?bs) + 100 \<le> 100 * 2 ^ 7"
    and h3: "200 * length ?bs * 2 ^ 7 < 2 ^ 53"
    by (simp_all add: cs n)
  from revenue_exact_within_bounds [OF h1 h2 h3, of example_now]
  have "revenue (dashboard_metrics example_now example_now example_tza two_amounts) = ''100.00''"
    by (simp add: cs fixed_2_10000)
  with two_amounts_today literal_9999 literal_001 show ?thesis by simp
qed

end
